theory Spec2Isabelle
  imports Main "HOL-Library.Sublist" "HOL-Library.Multiset" "HOL-Library.Char_ord"
    "HOL-Library.List_Lexorder" "HOL-Library.Product_Lexorder"
begin

section \<open>Data model of \<open>cachito/web/content_manifest.py\<close>\<close>

subsection \<open>Package\<close>

text \<open>
  The class \<open>Package\<close> (source lines 455-521) has the slots \<open>name\<close>, \<open>type\<close>,
  \<open>version\<close>, \<open>dev\<close>, \<open>dependencies\<close> and \<open>path\<close>. \<open>version\<close> and \<open>path\<close> are
  \<open>Optional[str]\<close>; \<open>dependencies\<close> is a list of packages. Packages are values here: a
  package owns its list of dependencies (as \<open>Package.from_json\<close> builds them), and the one
  in-place write of the module, \<open>dependency.version = ...\<close> in
  \<open>_get_local_go_package_dep_purl\<close>, is modelled by returning the updated dependency.
\<close>

datatype package = Package (name: string) (type: string) (version: "string option")
  (dev: bool) (path: "string option") (dependencies: "package list")

text \<open>The tuple \<open>(self.name, self.type, self.version, self.dev)\<close> of \<open>__hash__\<close>.\<close>

type_synonym package_id = "string \<times> string \<times> string option \<times> bool"

definition ident :: "package \<Rightarrow> package_id" where
  "ident p = (name p, type p, version p, dev p)"

text \<open>
  \<open>Package.__hash__\<close>: Python's builtin \<open>hash\<close> on tuples is a function of the tuple's
  value; it is the parameter \<open>h\<close>.
\<close>

definition package_hash :: "(package_id \<Rightarrow> int) \<Rightarrow> package \<Rightarrow> int" where
  "package_hash h p = h (name p, type p, version p, dev p)"

text \<open>\<open>Package.__eq__\<close>; \<open>isinstance(other, Package)\<close> holds by typing.\<close>

definition package_eq :: "package \<Rightarrow> package \<Rightarrow> bool" where
  "package_eq p other \<longleftrightarrow>
     name p = name other \<and> type p = type other \<and> version p = version other \<and> dev p = dev other"


subsection \<open>Request\<close>

text \<open>The request is read-only input; only \<open>repo\<close> and \<open>ref\<close> are read.\<close>

record request =
  repo :: string
  ref :: string

subsection \<open>Errors\<close>

text \<open>
  Every exception the module can raise is a value. \<open>ContentManifestError\<close> is what the
  purl codec raises; the two \<open>raise\<close> statements of
  \<open>_get_local_go_package_dep_purl\<close> are \<open>ValueError_invalid_local_version\<close> (line 165)
  and \<open>RuntimeError_no_parent_module\<close> (lines 179 and 185); the others come from
  \<open>Path.relative_to\<close>, from \<open>Path(None)\<close> and from subscripting a dict with a key
  it does not hold.
\<close>

datatype error =
    ContentManifestError
  | ValueError_invalid_local_version package_id
  | RuntimeError_no_parent_module string
  | ValueError_not_relative string string
  | TypeError_path_of_None
  | KeyError_module "string option"
  | KeyError_package package_id
  | KeyError_name

subsection \<open>Collaborators outside the module\<close>

text \<open>
  The functions imported from \<open>cachito.web.purl\<close>, \<open>cachito.common.utils\<close>, \<open>os.path\<close>
  and \<open>pathlib\<close> are parameters of the model. The codec is a pure function of a package's
  type, name and version (spec, section 8), so it receives the identity tuple of the
  package; \<open>None\<close> stands for a raised \<open>ContentManifestError\<close>, and for the \<open>ValueError\<close>
  of \<open>Path.relative_to\<close>. \<open>normpath_join a b\<close> is
  \<open>os.path.normpath(os.path.join(a, b))\<close>.
\<close>

record ext =
  to_purl :: "package_id \<Rightarrow> string option \<Rightarrow> string option"
  to_top_level_purl :: "package_id \<Rightarrow> request \<Rightarrow> string option \<Rightarrow> string option"
  to_vcs_purl :: "string \<Rightarrow> string \<Rightarrow> string \<Rightarrow> string option"
  replace_parent_purl_placeholder :: "string \<Rightarrow> string \<Rightarrow> string"
  get_repo_name :: "string \<Rightarrow> string"
  normpath_join :: "string \<Rightarrow> string \<Rightarrow> string"
  relative_to :: "string \<Rightarrow> string \<Rightarrow> string option"

definition codec_result :: "string option \<Rightarrow> error + string" where
  "codec_result r = (case r of None \<Rightarrow> Inl ContentManifestError | Some purl \<Rightarrow> Inr purl)"

text \<open>
  Modelled from the spec: \<open>gomod.match_parent_module\<close> of
  \<open>cachito.workers.pkg_managers\<close>, which is not among the sources. Section 4.2: it
  "returns the module name that is the longest exact path-prefix of \<open>candidate_path\<close>
  (prefix meaning: equal, or followed by a path separator), or none if no candidate
  matches".
\<close>

definition contains_package :: "string \<Rightarrow> string \<Rightarrow> bool" where
  "contains_package parent_name package_name \<longleftrightarrow>
     package_name = parent_name \<or> prefix (parent_name @ ''/'') package_name"

fun longest :: "string list \<Rightarrow> string option" where
  "longest [] = None"
| "longest (x # xs) =
     (case longest xs of
        None \<Rightarrow> Some x
      | Some y \<Rightarrow> if length x < length y then Some y else Some x)"

definition match_parent_module :: "string \<Rightarrow> string list \<Rightarrow> string option" where
  "match_parent_module candidate_path module_names =
     longest (filter (\<lambda>m. contains_package m candidate_path) module_names)"

subsection \<open>Python idioms\<close>

text \<open>Truthiness of an \<open>Optional[str]\<close>: \<open>None\<close> and the empty string are false.\<close>

definition truthy :: "string option \<Rightarrow> bool" where
  "truthy v = (case v of None \<Rightarrow> False | Some s \<Rightarrow> s \<noteq> [])"

text \<open>\<open>dependency.version and dependency.version.startswith(".")\<close>\<close>

definition is_local :: "string option \<Rightarrow> bool" where
  "is_local v = (case v of Some (c # cs) \<Rightarrow> c = CHR ''.'' | _ \<Rightarrow> False)"

text \<open>
  A \<open>dict\<close> is an association list in insertion order with distinct keys. A dict keyed
  by \<open>Package\<close> objects compares keys with \<open>__eq__\<close> and \<open>__hash__\<close>, that is by the
  identity tuple, which is the key here.
\<close>

definition setdefault :: "'k \<Rightarrow> 'v \<Rightarrow> ('k \<times> 'v) list \<Rightarrow> ('k \<times> 'v) list" where
  "setdefault k v d = (case map_of d k of None \<Rightarrow> d @ [(k, v)] | Some _ \<Rightarrow> d)"

definition adjust :: "'k \<Rightarrow> ('v \<Rightarrow> 'v) \<Rightarrow> ('k \<times> 'v) list \<Rightarrow> ('k \<times> 'v) list" where
  "adjust k f d = map (\<lambda>(k', v). (k', if k' = k then f v else v)) d"

definition setitem :: "'k \<Rightarrow> 'v \<Rightarrow> ('k \<times> 'v) list \<Rightarrow> ('k \<times> 'v) list" where
  "setitem k v d = (case map_of d k of None \<Rightarrow> d @ [(k, v)] | Some _ \<Rightarrow> adjust k (\<lambda>_. v) d)"

text \<open>\<open>s.split("/")[-1]\<close>\<close>

definition last_segment :: "string \<Rightarrow> string" where
  "last_segment s = rev (takeWhile (\<lambda>c. c \<noteq> CHR ''/'') (rev s))"

subsection \<open>ContentManifest\<close>

text \<open>
  An entry of a working map. The one-key dict \<open>{"purl": p}\<close> in a \<open>dependencies\<close> or
  \<open>sources\<close> list is the string \<open>p\<close>. Only go-package entries have the key \<open>name\<close>,
  until \<open>set_go_package_sources\<close> pops it; module entries have no \<open>sources\<close>.
\<close>

record entry =
  e_name :: "string option"
  e_purl :: string
  e_dependencies :: "string list"
  e_sources :: "string list"

record gomod_entry =
  m_purl :: string
  m_dependencies :: "string list"

text \<open>An SBOM component; \<open>c_version = None\<close> is a component without the key \<open>version\<close>.\<close>

record component =
  c_type :: string
  c_name :: string
  c_purl :: string
  c_version :: "string option"

datatype log_record = Warning string string | Debug string string

text \<open>
  The fields of a \<open>ContentManifest\<close>, and \<open>logger\<close> for what was sent to
  \<open>flask.current_app.logger\<close>.
\<close>

record content_manifest =
  request :: request
  packages :: "package list"
  gopkg_data :: "(package_id \<times> entry) list"
  gomod_data :: "(string \<times> gomod_entry) list"
  npm_data :: "(package_id \<times> entry) list"
  pip_data :: "(package_id \<times> entry) list"
  yarn_data :: "(package_id \<times> entry) list"
  rubygems_data :: "(package_id \<times> entry) list"
  gitsubmodule_data :: "(package_id \<times> entry) list"
  sbom_components :: "component list"
  logger :: "log_record list"

text \<open>\<open>ContentManifest.__init__\<close>\<close>

definition ContentManifest :: "request \<Rightarrow> package list \<Rightarrow> content_manifest" where
  "ContentManifest req pkgs =
     \<lparr>request = req, packages = pkgs, gopkg_data = [], gomod_data = [], npm_data = [],
      pip_data = [], yarn_data = [], rubygems_data = [], gitsubmodule_data = [],
      sbom_components = [], logger = []\<rparr>"

text \<open>The parameter \<open>type\<close> of the \<open>process_*\<close> methods: \<open>"icm"\<close> or \<open>"sbom"\<close>.\<close>

datatype mode = Icm | Sbom

text \<open>
  \<open>go_modules_by_name\<close>: the dict comprehension keeps a name at the place of its first
  insertion and the module of its last one. It is a \<open>cached_property\<close>; the dict holds
  references to the packages of \<open>self.packages\<close>, whose name, type and version are
  never written, so reading through the cached dict is reading the current packages, and
  the property is computed from them at every use.
\<close>

definition modules_by_name :: "package list \<Rightarrow> (string \<times> package) list" where
  "modules_by_name pkgs =
     fold (\<lambda>module d. setitem (name module) module d)
       (filter (\<lambda>module. type module = ''gomod'') pkgs) []"

definition go_modules_by_name :: "content_manifest \<Rightarrow> (string \<times> package) list" where
  "go_modules_by_name cm = modules_by_name (packages cm)"

definition new_component :: "package \<Rightarrow> string \<Rightarrow> component" where
  "new_component dependency dep_purl =
     \<lparr>c_type = ''library'', c_name = name dependency, c_purl = dep_purl,
      c_version = (if truthy (version dependency) then version dependency else None)\<rparr>"

text \<open>\<open>self._gomod_data[key]["purl"]\<close>, where \<open>key\<close> may be \<open>None\<close>.\<close>

definition gomod_purl :: "content_manifest \<Rightarrow> string option \<Rightarrow> error + string" where
  "gomod_purl cm key =
     (case key of
        None \<Rightarrow> Inl (KeyError_module None)
      | Some k \<Rightarrow>
          (case map_of (gomod_data cm) k of
             None \<Rightarrow> Inl (KeyError_module (Some k))
           | Some m \<Rightarrow> Inr (m_purl m)))"

text \<open>\<open>process_gomod\<close> (lines 85-127).\<close>

definition process_gomod ::
  "ext \<Rightarrow> mode \<Rightarrow> package \<Rightarrow> package \<Rightarrow> content_manifest \<Rightarrow> error option \<times> content_manifest"
where
  "process_gomod env ty package dependency cm =
     (if type dependency = ''gomod'' then
        (let keys = map fst (gomod_data cm);
             dep_normpath = (case version dependency of
                               None \<Rightarrow> []
                             | Some v \<Rightarrow> normpath_join env (name package) v);
             parent_module_name =
               (if is_local (version dependency) then match_parent_module dep_normpath keys
                else Some (name package));
             relpath =
               (if is_local (version dependency) \<and> name dependency \<notin> set keys then
                  (case parent_module_name of
                     None \<Rightarrow> Inl TypeError_path_of_None
                   | Some pm \<Rightarrow>
                       (case relative_to env dep_normpath pm of
                          None \<Rightarrow> Inl (ValueError_not_relative dep_normpath pm)
                        | Some r \<Rightarrow> Inr (Some r)))
                else Inr None)
         in case relpath of
              Inl e \<Rightarrow> (Some e, cm)
            | Inr relpath_from_parent_module_to_dep \<Rightarrow>
                (case gomod_purl cm parent_module_name of
                   Inl e \<Rightarrow> (Some e, cm)
                 | Inr parent_purl \<Rightarrow>
                     (case codec_result
                             (to_purl env (ident dependency) relpath_from_parent_module_to_dep) of
                        Inl e \<Rightarrow> (Some e, cm)
                      | Inr dep_purl0 \<Rightarrow>
                          (let dep_purl = replace_parent_purl_placeholder env dep_purl0 parent_purl
                           in case ty of
                                Icm \<Rightarrow>
                                  (case map_of (gomod_data cm) (name package) of
                                     None \<Rightarrow> (Some (KeyError_module (Some (name package))), cm)
                                   | Some _ \<Rightarrow>
                                       (None, cm\<lparr>gomod_data :=
                                          adjust (name package)
                                            (\<lambda>m. m\<lparr>m_dependencies := m_dependencies m @ [dep_purl]\<rparr>)
                                            (gomod_data cm)\<rparr>))
                              | Sbom \<Rightarrow>
                                  (None, cm\<lparr>sbom_components :=
                                     sbom_components cm @ [new_component dependency dep_purl]\<rparr>)))))
      else (None, cm))"

text \<open>
  \<open>_get_local_go_package_dep_purl\<close> (lines 157-191). The result is the purl or the
  error, and the dependency after the call: line 172 overwrites its version.
\<close>

definition get_local_go_package_dep_purl ::
  "ext \<Rightarrow> content_manifest \<Rightarrow> package \<Rightarrow> package \<Rightarrow> (error + string) \<times> package"
where
  "get_local_go_package_dep_purl env cm package dependency =
     (if \<not> is_local (version dependency) then
        (Inl (ValueError_invalid_local_version (ident dependency)), dependency)
      else
        (let modules = go_modules_by_name cm; names = map fst modules
         in case match_parent_module (name dependency) names of
              Some dep_module_name \<Rightarrow>
                (case map_of modules dep_module_name of
                   None \<Rightarrow> (Inl (KeyError_module (Some dep_module_name)), dependency)
                 | Some module \<Rightarrow>
                     (let dependency' =
                            Package (name dependency) (type dependency) (version module)
                              (dev dependency) (path dependency) (dependencies dependency)
                      in (codec_result (to_purl env (ident dependency') None), dependency')))
            | None \<Rightarrow>
                (case match_parent_module (name package) names of
                   None \<Rightarrow> (Inl (RuntimeError_no_parent_module (name package)), dependency)
                 | Some package_module_name \<Rightarrow>
                     (let dep_normpath =
                            (case version dependency of
                               None \<Rightarrow> []
                             | Some v \<Rightarrow> normpath_join env package_module_name v)
                      in case match_parent_module dep_normpath names of
                           None \<Rightarrow> (Inl (RuntimeError_no_parent_module dep_normpath), dependency)
                         | Some dep_module_name \<Rightarrow>
                             (case relative_to env dep_normpath dep_module_name of
                                None \<Rightarrow>
                                  (Inl (ValueError_not_relative dep_normpath dep_module_name),
                                   dependency)
                              | Some relpath_from_parent_module_to_dep \<Rightarrow>
                                  (case gomod_purl cm (Some dep_module_name) of
                                     Inl e \<Rightarrow> (Inl e, dependency)
                                   | Inr parent_purl \<Rightarrow>
                                       (case codec_result
                                               (to_purl env (ident dependency)
                                                  (Some relpath_from_parent_module_to_dep)) of
                                          Inl e \<Rightarrow> (Inl e, dependency)
                                        | Inr dep_purl \<Rightarrow>
                                            (Inr (replace_parent_purl_placeholder env dep_purl
                                                    parent_purl),
                                             dependency))))))))"

text \<open>\<open>process_go_package\<close> (lines 129-155).\<close>

definition process_go_package ::
  "ext \<Rightarrow> mode \<Rightarrow> package \<Rightarrow> package \<Rightarrow> content_manifest
     \<Rightarrow> error option \<times> package \<times> content_manifest"
where
  "process_go_package env ty package dependency cm =
     (if type dependency = ''go-package'' then
        (case (if is_local (version dependency)
               then get_local_go_package_dep_purl env cm package dependency
               else (codec_result (to_purl env (ident dependency) None), dependency)) of
           (Inl e, dependency') \<Rightarrow> (Some e, dependency', cm)
         | (Inr dep_purl, dependency') \<Rightarrow>
             (case ty of
                Icm \<Rightarrow>
                  (case map_of (gopkg_data cm) (ident package) of
                     None \<Rightarrow> (Some (KeyError_package (ident package)), dependency', cm)
                   | Some _ \<Rightarrow>
                       (None, dependency', cm\<lparr>gopkg_data :=
                          adjust (ident package)
                            (\<lambda>e. e\<lparr>e_dependencies := e_dependencies e @ [dep_purl]\<rparr>)
                            (gopkg_data cm)\<rparr>))
              | Sbom \<Rightarrow>
                  (None, dependency', cm\<lparr>sbom_components :=
                     sbom_components cm @ [new_component dependency' dep_purl]\<rparr>)))
      else (None, dependency, cm))"

text \<open>\<open>getattr(self, f"_{pkg_type}_data")\<close> for the four types it is called with.\<close>

definition type_data :: "string \<Rightarrow> content_manifest \<Rightarrow> (package_id \<times> entry) list" where
  "type_data pkg_type cm =
     (if pkg_type = ''npm'' then npm_data cm
      else if pkg_type = ''pip'' then pip_data cm
      else if pkg_type = ''yarn'' then yarn_data cm
      else rubygems_data cm)"

definition type_data_update ::
  "string \<Rightarrow> ((package_id \<times> entry) list \<Rightarrow> (package_id \<times> entry) list)
     \<Rightarrow> content_manifest \<Rightarrow> content_manifest"
where
  "type_data_update pkg_type f cm =
     (if pkg_type = ''npm'' then cm\<lparr>npm_data := f (npm_data cm)\<rparr>
      else if pkg_type = ''pip'' then cm\<lparr>pip_data := f (pip_data cm)\<rparr>
      else if pkg_type = ''yarn'' then cm\<lparr>yarn_data := f (yarn_data cm)\<rparr>
      else cm\<lparr>rubygems_data := f (rubygems_data cm)\<rparr>)"

text \<open>\<open>_process_standard_package\<close> (lines 260-271).\<close>

definition process_standard_package ::
  "ext \<Rightarrow> string \<Rightarrow> package \<Rightarrow> package \<Rightarrow> content_manifest \<Rightarrow> error option \<times> content_manifest"
where
  "process_standard_package env pkg_type package dependency cm =
     (case codec_result (to_purl env (ident dependency) None) of
        Inl e \<Rightarrow> (Some e, cm)
      | Inr icm_dependency \<Rightarrow>
          (case map_of (type_data pkg_type cm) (ident package) of
             None \<Rightarrow> (Some (KeyError_package (ident package)), cm)
           | Some _ \<Rightarrow>
               (None, type_data_update pkg_type
                  (adjust (ident package)
                     (\<lambda>e. if \<not> dev dependency
                          then e\<lparr>e_sources := e_sources e @ [icm_dependency],
                                 e_dependencies := e_dependencies e @ [icm_dependency]\<rparr>
                          else e\<lparr>e_sources := e_sources e @ [icm_dependency]\<rparr>)) cm)))"

text \<open>\<open>_process_standard_package_sbom\<close> (lines 273-287).\<close>

definition process_standard_package_sbom ::
  "ext \<Rightarrow> package \<Rightarrow> content_manifest \<Rightarrow> error option \<times> content_manifest"
where
  "process_standard_package_sbom env dependency cm =
     (case codec_result (to_purl env (ident dependency) None) of
        Inl e \<Rightarrow> (Some e, cm)
      | Inr purl \<Rightarrow>
          (None, cm\<lparr>sbom_components := sbom_components cm @ [new_component dependency purl]\<rparr>))"

text \<open>\<open>process_npm_package\<close>, \<open>process_pip_package\<close>, \<open>process_yarn_package\<close> (lines 218-258).\<close>

definition process_npm_package ::
  "ext \<Rightarrow> mode \<Rightarrow> package \<Rightarrow> package \<Rightarrow> content_manifest \<Rightarrow> error option \<times> content_manifest"
where
  "process_npm_package env ty package dependency cm =
     (if type dependency = ''npm'' then
        (case ty of
           Icm \<Rightarrow> process_standard_package env ''npm'' package dependency cm
         | Sbom \<Rightarrow> process_standard_package_sbom env dependency cm)
      else (None, cm))"

definition process_pip_package ::
  "ext \<Rightarrow> mode \<Rightarrow> package \<Rightarrow> package \<Rightarrow> content_manifest \<Rightarrow> error option \<times> content_manifest"
where
  "process_pip_package env ty package dependency cm =
     (if type dependency = ''pip'' then
        (case ty of
           Icm \<Rightarrow> process_standard_package env ''pip'' package dependency cm
         | Sbom \<Rightarrow> process_standard_package_sbom env dependency cm)
      else (None, cm))"

definition process_yarn_package ::
  "ext \<Rightarrow> mode \<Rightarrow> package \<Rightarrow> package \<Rightarrow> content_manifest \<Rightarrow> error option \<times> content_manifest"
where
  "process_yarn_package env ty package dependency cm =
     (if type dependency = ''yarn'' then
        (case ty of
           Icm \<Rightarrow> process_standard_package env ''yarn'' package dependency cm
         | Sbom \<Rightarrow> process_standard_package_sbom env dependency cm)
      else (None, cm))"

text \<open>\<open>process_rubygems_package\<close> (lines 289-317).\<close>

definition process_rubygems_package ::
  "ext \<Rightarrow> mode \<Rightarrow> package \<Rightarrow> package \<Rightarrow> content_manifest \<Rightarrow> error option \<times> content_manifest"
where
  "process_rubygems_package env ty package dependency cm =
     (if type dependency = ''rubygems'' then
        (let parent_package_name = last_segment (get_repo_name env (repo (request cm)))
         in case codec_result
                   (to_vcs_purl env parent_package_name (repo (request cm)) (ref (request cm))) of
              Inl e \<Rightarrow> (Some e, cm)
            | Inr parent_purl \<Rightarrow>
                (case codec_result (to_purl env (ident dependency) (path package)) of
                   Inl e \<Rightarrow> (Some e, cm)
                 | Inr dep_purl0 \<Rightarrow>
                     (let dep_purl = replace_parent_purl_placeholder env dep_purl0 parent_purl
                      in case ty of
                           Icm \<Rightarrow>
                             (case map_of (rubygems_data cm) (ident package) of
                                None \<Rightarrow> (Some (KeyError_package (ident package)), cm)
                              | Some _ \<Rightarrow>
                                  (None, cm\<lparr>rubygems_data :=
                                     adjust (ident package)
                                       (\<lambda>e. e\<lparr>e_sources := e_sources e @ [dep_purl],
                                              e_dependencies := e_dependencies e @ [dep_purl]\<rparr>)
                                       (rubygems_data cm)\<rparr>))
                         | Sbom \<Rightarrow>
                             (None, cm\<lparr>sbom_components :=
                                sbom_components cm @ [new_component dependency dep_purl]\<rparr>))))
      else (None, cm))"

text \<open>Lines 205-208: the name of the module that \<open>set_go_package_sources\<close> picks.\<close>

definition go_module_name :: "(string \<times> gomod_entry) list \<Rightarrow> string \<Rightarrow> string option" where
  "go_module_name gomods pkg_name =
     (if pkg_name \<in> set (map fst gomods) then Some pkg_name
      else match_parent_module pkg_name (map fst gomods))"

text \<open>
  \<open>set_go_package_sources\<close> (lines 193-216). The loop visits the items of
  \<open>_gopkg_data\<close> in order and changes the visited entry in place; \<open>_gomod_data\<close> is only
  read. The result is the error if one was raised, the items and the warnings logged.
\<close>

fun set_sources_loop ::
  "(string \<times> gomod_entry) list \<Rightarrow> (package_id \<times> entry) list
     \<Rightarrow> error option \<times> (package_id \<times> entry) list \<times> log_record list"
where
  "set_sources_loop gomods [] = (None, [], [])"
| "set_sources_loop gomods ((package_id, pkg_data) # items) =
     (case e_name pkg_data of
        None \<Rightarrow> (Some KeyError_name, (package_id, pkg_data) # items, [])
      | Some pkg_name \<Rightarrow>
          (let popped = pkg_data\<lparr>e_name := None\<rparr>
           in case go_module_name gomods pkg_name of
                Some mn \<Rightarrow>
                  (case map_of gomods mn of
                     None \<Rightarrow> (Some (KeyError_module (Some mn)), (package_id, popped) # items, [])
                   | Some module \<Rightarrow>
                       (case set_sources_loop gomods items of
                          (r, items', logs) \<Rightarrow>
                            (r, (package_id, popped\<lparr>e_sources := m_dependencies module\<rparr>) # items',
                             logs)))
              | None \<Rightarrow>
                  (case set_sources_loop gomods items of
                     (r, items', logs) \<Rightarrow>
                       (r, (package_id, popped) # items',
                        Warning ''Could not find a Go module for %s'' (e_purl pkg_data) # logs))))"

definition set_go_package_sources :: "content_manifest \<Rightarrow> error option \<times> content_manifest" where
  "set_go_package_sources cm =
     (case set_sources_loop (gomod_data cm) (gopkg_data cm) of
        (r, items, logs) \<Rightarrow> (r, cm\<lparr>gopkg_data := items, logger := logger cm @ logs\<rparr>))"

subsection \<open>The image content manifest\<close>

record icm_metadata =
  icm_version :: int
  icm_spec :: string
  image_layer_index :: int

record icm =
  metadata :: icm_metadata
  image_contents :: "entry list"

definition VERSION :: int where
  "VERSION = 1"

definition JSON_SCHEMA_URL :: string where
  "JSON_SCHEMA_URL =
     ''https://raw.githubusercontent.com/containerbuildsystem/atomic-reactor/''
     @ ''f4abcfdaf8247a6b074f94fa84f3846f82d781c6/atomic_reactor/schemas/content_manifest.json''"

definition UNKNOWN_LAYER_INDEX :: int where
  "UNKNOWN_LAYER_INDEX = - 1"

definition BASE_ICM :: icm where
  "BASE_ICM =
     \<lparr>metadata = \<lparr>icm_version = VERSION, icm_spec = JSON_SCHEMA_URL,
                  image_layer_index = UNKNOWN_LAYER_INDEX\<rparr>,
      image_contents = []\<rparr>"

text \<open>
  Modelled from the spec: \<open>deep_sort_icm\<close> of \<open>cachito.web.utils\<close>, which is not among the
  sources. Section 4.3: "recursively, for any nested mapping, sort by key; for any
  sequence whose elements are mappings, sort the sequence by each element's serialized
  key order then value". A record has no key order, so sorting a mapping by key changes
  nothing here; the lists of \<open>{"purl": p}\<close> are sorted by \<open>p\<close>, and the entries by
  their sorted keys and then the values under these keys.
\<close>

definition entry_keys :: "entry \<Rightarrow> string list" where
  "entry_keys e =
     ''dependencies'' # (case e_name e of None \<Rightarrow> [] | Some n \<Rightarrow> [''name''])
     @ [''purl'', ''sources'']"

definition entry_values :: "entry \<Rightarrow> string list list" where
  "entry_values e =
     e_dependencies e # (case e_name e of None \<Rightarrow> [] | Some n \<Rightarrow> [[n]])
     @ [[e_purl e], e_sources e]"

definition deep_sort_entry :: "entry \<Rightarrow> entry" where
  "deep_sort_entry e =
     e\<lparr>e_dependencies := sort (e_dependencies e), e_sources := sort (e_sources e)\<rparr>"

definition deep_sort_icm :: "icm \<Rightarrow> icm" where
  "deep_sort_icm doc =
     doc\<lparr>image_contents :=
       sort_key (\<lambda>e. (entry_keys e, entry_values e)) (map deep_sort_entry (image_contents doc))\<rparr>"

text \<open>\<open>generate_icm\<close> (lines 387-398); \<open>image_contents or []\<close>.\<close>

definition generate_icm :: "entry list option \<Rightarrow> icm" where
  "generate_icm contents =
     deep_sort_icm
       (BASE_ICM\<lparr>image_contents := (case contents of None \<Rightarrow> [] | Some xs \<Rightarrow> xs)\<rparr>)"

subsection \<open>The two entry points\<close>

text \<open>A \<open>for\<close> loop whose body may raise: the first error ends it.\<close>

fun for_each ::
  "('a \<Rightarrow> content_manifest \<Rightarrow> error option \<times> content_manifest) \<Rightarrow> 'a list
     \<Rightarrow> content_manifest \<Rightarrow> error option \<times> content_manifest"
where
  "for_each body [] cm = (None, cm)"
| "for_each body (x # xs) cm =
     (case body x cm of
        (Some e, cm') \<Rightarrow> (Some e, cm')
      | (None, cm') \<Rightarrow> for_each body xs cm')"

text \<open>The body of the first loop of \<open>to_json\<close> (lines 334-357).\<close>

definition new_entry :: "string option \<Rightarrow> string \<Rightarrow> entry" where
  "new_entry n purl = \<lparr>e_name = n, e_purl = purl, e_dependencies = [], e_sources = []\<rparr>"

definition seed_package ::
  "ext \<Rightarrow> package \<Rightarrow> content_manifest \<Rightarrow> error option \<times> content_manifest"
where
  "seed_package env package cm =
     (if type package = ''go-package'' then
        (case codec_result (to_top_level_purl env (ident package) (request cm) (path package)) of
           Inl e \<Rightarrow> (Some e, cm)
         | Inr purl \<Rightarrow>
             (None, cm\<lparr>gopkg_data :=
                setdefault (ident package) (new_entry (Some (name package)) purl) (gopkg_data cm)\<rparr>))
      else if type package = ''gomod'' then
        (case codec_result (to_top_level_purl env (ident package) (request cm) (path package)) of
           Inl e \<Rightarrow> (Some e, cm)
         | Inr purl \<Rightarrow>
             (None, cm\<lparr>gomod_data :=
                setdefault (name package) \<lparr>m_purl = purl, m_dependencies = []\<rparr> (gomod_data cm)\<rparr>))
      else if type package \<in> set [''npm'', ''pip'', ''yarn'', ''rubygems''] then
        (case codec_result (to_top_level_purl env (ident package) (request cm) (path package)) of
           Inl e \<Rightarrow> (Some e, cm)
         | Inr purl \<Rightarrow>
             (None, type_data_update (type package)
                (setdefault (ident package) (new_entry None purl)) cm))
      else if type package = ''git-submodule'' then
        (case codec_result (to_top_level_purl env (ident package) (request cm) (path package)) of
           Inl e \<Rightarrow> (Some e, cm)
         | Inr purl \<Rightarrow>
             (None, cm\<lparr>gitsubmodule_data :=
                setdefault (ident package) (new_entry None purl) (gitsubmodule_data cm)\<rparr>))
      else
        (None, cm\<lparr>logger :=
           logger cm @ [Debug ''No ICM implementation for '%s' packages'' (type package)]\<rparr>))"

text \<open>
  The body of the second loop (lines 361-372 and 439-450): the dispatch on the type of
  the owning package. It returns the dependency as the call leaves it.
\<close>

definition process_dependency ::
  "ext \<Rightarrow> mode \<Rightarrow> package \<Rightarrow> package \<Rightarrow> content_manifest
     \<Rightarrow> error option \<times> package \<times> content_manifest"
where
  "process_dependency env ty package dependency cm =
     (if type package = ''go-package'' then process_go_package env ty package dependency cm
      else if type package = ''gomod'' then
        (case process_gomod env ty package dependency cm of (r, cm') \<Rightarrow> (r, dependency, cm'))
      else if type package = ''npm'' then
        (case process_npm_package env ty package dependency cm of (r, cm') \<Rightarrow> (r, dependency, cm'))
      else if type package = ''pip'' then
        (case process_pip_package env ty package dependency cm of (r, cm') \<Rightarrow> (r, dependency, cm'))
      else if type package = ''yarn'' then
        (case process_yarn_package env ty package dependency cm of (r, cm') \<Rightarrow> (r, dependency, cm'))
      else if type package = ''rubygems'' then
        (case process_rubygems_package env ty package dependency cm of
           (r, cm') \<Rightarrow> (r, dependency, cm'))
      else (None, dependency, cm))"

text \<open>\<open>for dependency in package.dependencies\<close>: the dependencies as the loop leaves them.\<close>

fun process_dependencies ::
  "ext \<Rightarrow> mode \<Rightarrow> package \<Rightarrow> package list \<Rightarrow> content_manifest
     \<Rightarrow> error option \<times> package list \<times> content_manifest"
where
  "process_dependencies env ty package [] cm = (None, [], cm)"
| "process_dependencies env ty package (dependency # ds) cm =
     (case process_dependency env ty package dependency cm of
        (Some e, dependency', cm') \<Rightarrow> (Some e, dependency' # ds, cm')
      | (None, dependency', cm') \<Rightarrow>
          (case process_dependencies env ty package ds cm' of
             (r, ds', cm'') \<Rightarrow> (r, dependency' # ds', cm'')))"

text \<open>\<open>for package in self.packages\<close>: the packages as the loop leaves them.\<close>

fun process_packages ::
  "ext \<Rightarrow> mode \<Rightarrow> package list \<Rightarrow> content_manifest
     \<Rightarrow> error option \<times> package list \<times> content_manifest"
where
  "process_packages env ty [] cm = (None, [], cm)"
| "process_packages env ty (package # ps) cm =
     (case process_dependencies env ty package (dependencies package) cm of
        (Some e, ds', cm') \<Rightarrow>
          (Some e,
           Package (name package) (type package) (version package) (dev package) (path package)
             ds' # ps, cm')
      | (None, ds', cm') \<Rightarrow>
          (case process_packages env ty ps cm' of
             (r, ps', cm'') \<Rightarrow>
               (r,
                Package (name package) (type package) (version package) (dev package)
                  (path package) ds' # ps', cm'')))"

text \<open>
  \<open>to_json\<close> (lines 319-385). The result is the document or the error raised, and the
  instance after the call; \<open>packages\<close> is written back when the second loop ends, with
  the dependencies as it left them.
\<close>

definition to_json :: "ext \<Rightarrow> content_manifest \<Rightarrow> (error + icm) \<times> content_manifest" where
  "to_json env cm0 =
     (let cm = cm0\<lparr>gopkg_data := [], gomod_data := [], npm_data := [], pip_data := [],
                   yarn_data := [], rubygems_data := [], gitsubmodule_data := []\<rparr>
      in case for_each (seed_package env) (packages cm) cm of
           (Some e, cm1) \<Rightarrow> (Inl e, cm1)
         | (None, cm1) \<Rightarrow>
             (case process_packages env Icm (packages cm1) cm1 of
                (Some e, ps, cm2) \<Rightarrow> (Inl e, cm2\<lparr>packages := ps\<rparr>)
              | (None, ps, cm2) \<Rightarrow>
                  (case set_go_package_sources (cm2\<lparr>packages := ps\<rparr>) of
                     (Some e, cm3) \<Rightarrow> (Inl e, cm3)
                   | (None, cm3) \<Rightarrow>
                       (let top_level_packages =
                              map snd (gopkg_data cm3) @ map snd (npm_data cm3)
                              @ map snd (pip_data cm3) @ map snd (yarn_data cm3)
                              @ map snd (rubygems_data cm3) @ map snd (gitsubmodule_data cm3)
                        in (Inr (generate_icm (Some top_level_packages)), cm3)))))"

text \<open>The body of the first loop of \<open>sbom_components_list\<close> (lines 410-435).\<close>

definition sbom_package ::
  "ext \<Rightarrow> package \<Rightarrow> content_manifest \<Rightarrow> error option \<times> content_manifest"
where
  "sbom_package env package cm =
     (if type package \<in> set [''go-package'', ''gomod'', ''npm'', ''pip'', ''yarn'', ''rubygems'',
                              ''git-submodule''] then
        (case codec_result (to_top_level_purl env (ident package) (request cm) (path package)) of
           Inl e \<Rightarrow> (Some e, cm)
         | Inr purl \<Rightarrow>
             (let cm' = (if type package = ''gomod''
                         then cm\<lparr>gomod_data :=
                                setdefault (name package) \<lparr>m_purl = purl, m_dependencies = []\<rparr>
                                  (gomod_data cm)\<rparr>
                         else cm)
              in (None, cm'\<lparr>sbom_components :=
                    sbom_components cm' @ [new_component package purl]\<rparr>)))
      else
        (None, cm\<lparr>logger :=
           logger cm @ [Debug ''No SBOM implementation for '%s' packages'' (type package)]\<rparr>))"

text \<open>\<open>sbom_components_list\<close> (lines 400-452).\<close>

definition sbom_components_list ::
  "ext \<Rightarrow> content_manifest \<Rightarrow> (error + component list) \<times> content_manifest"
where
  "sbom_components_list env cm0 =
     (let cm = cm0\<lparr>sbom_components := [], gomod_data := []\<rparr>
      in case for_each (sbom_package env) (packages cm) cm of
           (Some e, cm1) \<Rightarrow> (Inl e, cm1)
         | (None, cm1) \<Rightarrow>
             (case process_packages env Sbom (packages cm1) cm1 of
                (Some e, ps, cm2) \<Rightarrow> (Inl e, cm2\<lparr>packages := ps\<rparr>)
              | (None, ps, cm2) \<Rightarrow> (Inr (sbom_components cm2), cm2\<lparr>packages := ps\<rparr>)))"

subsection \<open>An instance of the collaborators\<close>

text \<open>
  Concrete collaborators, for evaluating the model on concrete requests. The path
  functions follow \<open>posixpath.join\<close>, \<open>posixpath.normpath\<close> and
  \<open>PurePosixPath.relative_to\<close> of the standard library.
\<close>

fun split_on :: "char \<Rightarrow> string \<Rightarrow> string list" where
  "split_on c [] = [[]]"
| "split_on c (x # xs) =
     (if x = c then [] # split_on c xs
      else (case split_on c xs of [] \<Rightarrow> [[x]] | y # ys \<Rightarrow> (x # y) # ys))"

fun join_with :: "string \<Rightarrow> string list \<Rightarrow> string" where
  "join_with sep [] = []"
| "join_with sep [x] = x"
| "join_with sep (x # y # ys) = x @ sep @ join_with sep (y # ys)"

definition path_join :: "string \<Rightarrow> string \<Rightarrow> string" where
  "path_join a b =
     (if prefix ''/'' b then b
      else if a = [] \<or> suffix ''/'' a then a @ b
      else a @ ''/'' @ b)"

definition initial_slashes :: "string \<Rightarrow> nat" where
  "initial_slashes p =
     (if \<not> prefix ''/'' p then 0 else if prefix ''//'' p \<and> \<not> prefix ''///'' p then 2 else 1)"

definition norm_step :: "nat \<Rightarrow> string \<Rightarrow> string list \<Rightarrow> string list" where
  "norm_step slashes part new_comps =
     (if part = [] \<or> part = ''.'' then new_comps
      else if part \<noteq> ''..'' \<or> (slashes = 0 \<and> new_comps = [])
              \<or> (new_comps \<noteq> [] \<and> last new_comps = ''..'')
        then new_comps @ [part]
      else butlast new_comps)"

definition normpath :: "string \<Rightarrow> string" where
  "normpath p =
     (if p = [] then ''.''
      else (let slashes = initial_slashes p;
                new_comps = fold (norm_step slashes) (split_on (CHR ''/'') p) [];
                q = replicate slashes (CHR ''/'') @ join_with ''/'' new_comps
            in if q = [] then ''.'' else q))"

definition path_parts :: "string \<Rightarrow> string list" where
  "path_parts p =
     (if initial_slashes p = 0 then [] else [replicate (initial_slashes p) (CHR ''/'')])
     @ filter (\<lambda>c. c \<noteq> [] \<and> c \<noteq> ''.'') (split_on (CHR ''/'') p)"

definition path_relative_to :: "string \<Rightarrow> string \<Rightarrow> string option" where
  "path_relative_to p other =
     (if prefix (path_parts other) (path_parts p)
      then (let rest = drop (length (path_parts other)) (path_parts p)
            in Some (if rest = [] then ''.'' else join_with ''/'' rest))
      else None)"

text \<open>
  Modelled from the spec: the purl codec \<open>cachito.web.purl\<close> and \<open>get_repo_name\<close> of
  \<open>cachito.common.utils\<close>, which are not among the sources. Section 4.1 is followed for
  Go modules and Go packages in full, and for npm, yarn and rubygems packages with a
  registry version; pip packages, git submodules and the URL, VCS and file syntaxes of
  versions are not covered, and this instance answers \<open>None\<close> for them. Nothing below evaluates it
  outside the covered part. The value of the placeholder is not in the spec.
\<close>

definition is_unreserved :: "char \<Rightarrow> bool" where
  "is_unreserved c \<longleftrightarrow>
     c \<in> set (''ABCDEFGHIJKLMNOPQRSTUVWXYZabcdefghijklmnopqrstuvwxyz'' @ ''0123456789_.-~'')"

definition hex_digit :: "nat \<Rightarrow> char" where
  "hex_digit n = ''0123456789ABCDEF'' ! (n mod 16)"

definition url_escape :: "string \<Rightarrow> string" where
  "url_escape s =
     concat (map (\<lambda>c. if is_unreserved c then [c]
                       else [CHR ''%'', hex_digit (of_char c div 16), hex_digit (of_char c)]) s)"

definition PARENT_PURL_PLACEHOLDER :: string where
  "PARENT_PURL_PLACEHOLDER = ''PARENT_PURL''"

definition registry_version :: "string \<Rightarrow> bool" where
  "registry_version v \<longleftrightarrow>
     v \<noteq> [] \<and> \<not> prefix ''.'' v \<and> CHR '':'' \<notin> set v \<and> CHR ''/'' \<notin> set v \<and> CHR ''#'' \<notin> set v"

definition placeholder_purl :: "string option \<Rightarrow> string" where
  "placeholder_purl relative_path =
     PARENT_PURL_PLACEHOLDER @ (case relative_path of None \<Rightarrow> [] | Some r \<Rightarrow> ''#'' @ r)"

definition spec_to_purl :: "package_id \<Rightarrow> string option \<Rightarrow> string option" where
  "spec_to_purl k relative_path =
     (case k of (n, t, v, d) \<Rightarrow>
        if t = ''gomod'' \<or> t = ''go-package'' then
          (case v of
             None \<Rightarrow> Some (''pkg:golang/'' @ url_escape n)
           | Some s \<Rightarrow>
               if s = [] then Some (''pkg:golang/'' @ url_escape n)
               else if prefix ''.'' s then Some (placeholder_purl relative_path)
               else Some (''pkg:golang/'' @ url_escape n @ ''@'' @ s))
        else if t = ''npm'' \<or> t = ''yarn'' then
          (case v of
             None \<Rightarrow> None
           | Some s \<Rightarrow>
               if registry_version s
               then Some (''pkg:npm/''
                          @ concat (map (\<lambda>c. if c = CHR ''@'' then ''%40'' else [c]) n)
                          @ ''@'' @ s)
               else None)
        else if t = ''rubygems'' then
          (case v of
             None \<Rightarrow> None
           | Some s \<Rightarrow>
               if prefix ''.'' s then Some (placeholder_purl relative_path)
               else if registry_version s then Some (''pkg:gem/'' @ n @ ''@'' @ s)
               else None)
        else None)"

fun find_sub :: "string \<Rightarrow> string \<Rightarrow> (string \<times> string) option" where
  "find_sub sub [] = (if sub = [] then Some ([], []) else None)"
| "find_sub sub (c # cs) =
     (if prefix sub (c # cs) then Some ([], drop (length sub) (c # cs))
      else (case find_sub sub cs of None \<Rightarrow> None | Some (b, a) \<Rightarrow> Some (c # b, a)))"

definition strip_suffix :: "string \<Rightarrow> string \<Rightarrow> string" where
  "strip_suffix suf s = (if suffix suf s then take (length s - length suf) s else s)"

definition url_host :: "string \<Rightarrow> string" where
  "url_host url =
     (let rest = (case find_sub ''://'' url of None \<Rightarrow> url | Some (b, a) \<Rightarrow> a);
          authority = (case find_sub ''/'' rest of None \<Rightarrow> rest | Some (b, a) \<Rightarrow> b);
          hostport = (case find_sub ''@'' authority of None \<Rightarrow> authority | Some (b, a) \<Rightarrow> a)
      in takeWhile (\<lambda>c. c \<noteq> CHR '':'') hostport)"

definition url_path :: "string \<Rightarrow> string" where
  "url_path url =
     (let rest = (case find_sub ''://'' url of None \<Rightarrow> url | Some (b, a) \<Rightarrow> a)
      in case find_sub ''/'' rest of None \<Rightarrow> [] | Some (b, a) \<Rightarrow> a)"

definition spec_get_repo_name :: "string \<Rightarrow> string" where
  "spec_get_repo_name url = strip_suffix ''.git'' (strip_suffix ''/'' (url_path url))"

definition spec_to_vcs_purl :: "string \<Rightarrow> string \<Rightarrow> string \<Rightarrow> string option" where
  "spec_to_vcs_purl pkg_name repo_url rev_id =
     (if url_host repo_url = ''github.com''
        then Some (''pkg:github/'' @ spec_get_repo_name repo_url @ ''@'' @ rev_id)
      else if url_host repo_url = ''bitbucket.org''
        then Some (''pkg:bitbucket/'' @ spec_get_repo_name repo_url @ ''@'' @ rev_id)
      else Some (''pkg:generic/'' @ pkg_name @ ''?vcs_url=''
                 @ url_escape (strip_suffix ''/'' repo_url @ ''@'' @ rev_id)))"

definition spec_to_top_level_purl ::
  "package_id \<Rightarrow> request \<Rightarrow> string option \<Rightarrow> string option"
where
  "spec_to_top_level_purl k req subpath =
     (case k of (n, t, v, d) \<Rightarrow>
        if t \<in> set [''gomod'', ''go-package'', ''git-submodule''] then spec_to_purl k None
        else if t \<in> set [''npm'', ''pip'', ''yarn'', ''rubygems''] then
          (case spec_to_vcs_purl (spec_get_repo_name (repo req)) (repo req) (ref req) of
             None \<Rightarrow> None
           | Some purl \<Rightarrow>
               Some (case subpath of
                       None \<Rightarrow> purl
                     | Some sp \<Rightarrow> if sp = [] then purl else purl @ ''#'' @ sp))
        else None)"

fun replace_all :: "string \<Rightarrow> string \<Rightarrow> string \<Rightarrow> string" where
  "replace_all old new [] = []"
| "replace_all old new (c # cs) =
     (if old \<noteq> [] \<and> prefix old (c # cs)
      then new @ replace_all old new (drop (length old) (c # cs))
      else c # replace_all old new cs)"

definition spec_env :: ext where
  "spec_env =
     \<lparr>to_purl = spec_to_purl,
      to_top_level_purl = spec_to_top_level_purl,
      to_vcs_purl = spec_to_vcs_purl,
      replace_parent_purl_placeholder =
        (\<lambda>dep_purl parent_purl. replace_all PARENT_PURL_PLACEHOLDER parent_purl dep_purl),
      get_repo_name = spec_get_repo_name,
      normpath_join = (\<lambda>a b. normpath (path_join a b)),
      relative_to = path_relative_to\<rparr>"

subsection \<open>What a call may change in the packages\<close>

text \<open>
  The dependency as line 172 leaves it: its version is the version of the module that
  its name matches among the modules of the package list.
\<close>

definition relinked :: "package list \<Rightarrow> package \<Rightarrow> package" where
  "relinked pkgs d =
     (case match_parent_module (name d) (map fst (modules_by_name pkgs)) of
        None \<Rightarrow> d
      | Some m \<Rightarrow>
          (case map_of (modules_by_name pkgs) m of
             None \<Rightarrow> d
           | Some module \<Rightarrow>
               Package (name d) (type d) (version module) (dev d) (path d) (dependencies d)))"

text \<open>
  A dependency \<open>d\<close> of the package \<open>p\<close> before a call and the same dependency after it:
  it is unchanged, or it is a local go-package dependency of a go-package and was
  relinked.
\<close>

definition dependency_after :: "package list \<Rightarrow> package \<Rightarrow> package \<Rightarrow> package \<Rightarrow> bool" where
  "dependency_after pkgs p d d' \<longleftrightarrow>
     d' = d
     \<or> (type p = ''go-package'' \<and> type d = ''go-package'' \<and> is_local (version d)
        \<and> d' = relinked pkgs d)"

definition package_after :: "package list \<Rightarrow> package \<Rightarrow> package \<Rightarrow> bool" where
  "package_after pkgs p p' \<longleftrightarrow>
     name p' = name p \<and> type p' = type p \<and> version p' = version p \<and> dev p' = dev p
     \<and> path p' = path p
     \<and> list_all2 (dependency_after pkgs p) (dependencies p) (dependencies p')"

subsection \<open>Example inputs\<close>

definition example_request :: request where
  "example_request = \<lparr>repo = ''https://github.com/o/r'', ref = ''abc''\<rparr>"




definition npm_dev_dependency :: package where
  "npm_dev_dependency = Package ''b'' ''npm'' (Some ''2.0'') True None []"



text \<open>An instance with two go-package entries and one module before \<open>set_go_package_sources\<close>.\<close>

definition go_manifest :: content_manifest where
  "go_manifest =
     (ContentManifest example_request [])
       \<lparr>gopkg_data :=
          [((''m/p'', ''go-package'', Some ''v1'', False), new_entry (Some ''m/p'') ''pkg:golang/m%2Fp@v1''),
           ((''x'', ''go-package'', Some ''v1'', False), new_entry (Some ''x'') ''pkg:golang/x@v1'')],
        gomod_data := [(''m'', \<lparr>m_purl = ''pkg:golang/m@v1'', m_dependencies = [''pkg:golang/d@v2'']\<rparr>)]\<rparr>"

text \<open>A module, and a go-package of it with a local dependency inside the module.\<close>

definition local_go_dependency :: package where
  "local_go_dependency = Package ''m/q'' ''go-package'' (Some ''./q'') False None []"

definition local_go_packages :: "package list" where
  "local_go_packages =
     [Package ''m'' ''gomod'' (Some ''v1'') False None [],
      Package ''m/p'' ''go-package'' (Some ''v1'') False None [local_go_dependency]]"

definition local_go_manifest :: content_manifest where
  "local_go_manifest = ContentManifest example_request local_go_packages"

subsection \<open>The errors of \<open>_get_local_go_package_dep_purl\<close>\<close>

text \<open>A go-package outside every module, and a dependency with a registry version.\<close>

definition stray_go_package :: package where
  "stray_go_package = Package ''x/p'' ''go-package'' (Some ''v1'') False None []"

definition versioned_go_dependency :: package where
  "versioned_go_dependency = Package ''m/q'' ''go-package'' (Some ''1.0.0'') False None []"

definition outside_go_dependency :: package where
  "outside_go_dependency = Package ''x/y'' ''go-package'' (Some ''./sub'') False None []"

subsection \<open>What the SBOM lists\<close>

text \<open>The type, the name and the version key of a component, and those that a package calls for.\<close>

definition component_fields :: "component \<Rightarrow> string \<times> string \<times> string option" where
  "component_fields c = (c_type c, c_name c, c_version c)"

definition expected_fields :: "package \<Rightarrow> string \<times> string \<times> string option" where
  "expected_fields x = (''library'', name x, if truthy (version x) then version x else None)"

text \<open>The dependencies of a package that the second loop hands to a processor that takes them.\<close>

definition processed_dependencies :: "package \<Rightarrow> package list" where
  "processed_dependencies p =
     (if type p \<in> set [''go-package'', ''gomod'', ''npm'', ''pip'', ''yarn'', ''rubygems'']
      then filter (\<lambda>d. type d = type p) (dependencies p) else [])"

text \<open>A module without a version, and a go-package of it with a local dependency.\<close>

definition unversioned_module_packages :: "package list" where
  "unversioned_module_packages =
     [Package ''m'' ''gomod'' None False None [],
      Package ''m/p'' ''go-package'' (Some ''v1'') False None [local_go_dependency]]"

subsection \<open>The entries of the top-level packages\<close>

text \<open>The keys of a working map with the purl of each entry.\<close>

definition purls_of :: "(package_id \<times> entry) list \<Rightarrow> (package_id \<times> string) list" where
  "purls_of m = map (\<lambda>(k, e). (k, e_purl e)) m"

text \<open>
  \<open>kps\<close> holds exactly one key for each identity among the packages with a type in \<open>ts\<close>,
  with the top-level purl of a package of that identity.
\<close>

definition top_level_of ::
  "ext \<Rightarrow> request \<Rightarrow> string set \<Rightarrow> package list \<Rightarrow> (package_id \<times> string) list \<Rightarrow> bool"
where
  "top_level_of env req ts pkgs kps \<longleftrightarrow>
     distinct (map fst kps)
     \<and> set (map fst kps) = ident ` {p \<in> set pkgs. type p \<in> ts}
     \<and> (\<forall>(k, u) \<in> set kps.
          \<exists>p \<in> set pkgs. ident p = k \<and> to_top_level_purl env k req (path p) = Some u)"

text \<open>The working maps that \<open>to_json\<close> puts into \<open>image_contents\<close>, with the type they hold.\<close>

definition icm_maps :: "(string \<times> (content_manifest \<Rightarrow> (package_id \<times> entry) list)) list" where
  "icm_maps =
     [(''go-package'', gopkg_data), (''npm'', npm_data), (''pip'', pip_data),
      (''yarn'', yarn_data), (''rubygems'', rubygems_data),
      (''git-submodule'', gitsubmodule_data)]"

text \<open>A request with a go-package, its module, an npm package twice and a package of no known type.\<close>

definition mixed_packages :: "package list" where
  "mixed_packages =
     [Package ''m'' ''gomod'' (Some ''v1'') False None [],
      Package ''m/p'' ''go-package'' (Some ''v1'') False None [],
      Package ''a'' ''npm'' (Some ''1.0'') False None [npm_dev_dependency],
      Package ''a'' ''npm'' (Some ''1.0'') False (Some ''sub'') [],
      Package ''u'' ''cargo'' (Some ''1.0'') False None []]"

text \<open>A go-package outside every module, with a local dependency outside every module.\<close>

definition stray_local_packages :: "package list" where
  "stray_local_packages =
     [Package ''x/p'' ''go-package'' (Some ''v1'') False None [outside_go_dependency]]"

text \<open>A dependency outside every module whose local version leaves the module of its owner.\<close>

definition escaping_go_dependency :: package where
  "escaping_go_dependency = Package ''x/y'' ''go-package'' (Some ''../z'') False None []"

text \<open>
  The dependency \<open>d\<close> of the package \<open>p\<close> as a call that processed it leaves it: a
  go-package dependency with a local version of a go-package was relinked.
\<close>

definition dependency_left :: "package list \<Rightarrow> package \<Rightarrow> package \<Rightarrow> package" where
  "dependency_left pkgs p d =
     (if type p = ''go-package'' \<and> type d = ''go-package'' \<and> is_local (version d)
      then relinked pkgs d else d)"

section \<open>Package identity\<close>

text \<open>
  C3. Package equality and hashing are determined exactly by the four fields
  (name, type, version, dev): two packages that agree on these four fields are equal and
  have the same hash, whatever their path and dependencies are, and two packages that
  differ in one of the four fields are unequal.
\<close>

theorem package_identity_four_fields:
  "package_eq (Package n t v d pa ds) (Package n t v d pa' ds')
   \<and> package_hash h (Package n t v d pa ds) = package_hash h (Package n t v d pa' ds')
   \<and> (package_eq p q \<longrightarrow> package_hash h p = package_hash h q)
   \<and> (name p \<noteq> name q \<or> type p \<noteq> type q \<or> version p \<noteq> version q \<or> dev p \<noteq> dev q
        \<longrightarrow> \<not> package_eq p q)"
  by (auto simp: package_eq_def package_hash_def)

theorem package_identity_four_fields_witness:
  "package_eq (Package ''a'' ''npm'' (Some ''1.0'') False None [])
      (Package ''a'' ''npm'' (Some ''1.0'') False (Some ''sub'') [Package ''b'' ''npm'' None True None []])
   \<and> package_hash (\<lambda>(n, t, v, d). int (length n)) (Package ''a'' ''npm'' (Some ''1.0'') False None [])
      = package_hash (\<lambda>(n, t, v, d). int (length n)) (Package ''a'' ''npm'' (Some ''1.0'') False (Some ''sub'')
          [Package ''b'' ''npm'' None True None []])
   \<and> \<not> package_eq (Package ''a'' ''npm'' (Some ''1.0'') False None [])
        (Package ''a'' ''npm'' (Some ''1.0'') True None [])"
  using package_identity_four_fields [of "''a''" "''npm''" "Some ''1.0''" False None "[]"
      "Some ''sub''" "[Package ''b'' ''npm'' None True None []]" "\<lambda>(n, t, v, d). int (length n)"
      "Package ''a'' ''npm'' (Some ''1.0'') False None []"
      "Package ''a'' ''npm'' (Some ''1.0'') True None []"]
  by simp

section \<open>Dictionaries and module matching\<close>


lemma map_fst_adjust: "map fst (adjust k f d) = map fst d"
  by (induction d) (auto simp: adjust_def)

lemma longest_member: "longest xs = Some m \<Longrightarrow> m \<in> set xs"
  by (induction xs arbitrary: m) (auto split: option.splits if_splits)

lemma longest_None: "longest xs = None \<longleftrightarrow> xs = []"
  by (cases xs) (auto split: option.splits)

lemma match_parent_module_member:
  "match_parent_module p ns = Some m \<Longrightarrow> m \<in> set ns \<and> contains_package m p"
  using longest_member [of "filter (\<lambda>m. contains_package m p) ns" m]
  by (simp add: match_parent_module_def)

lemma match_parent_module_None:
  "match_parent_module p ns = None \<longleftrightarrow> (\<forall>m \<in> set ns. \<not> contains_package m p)"
  by (auto simp: match_parent_module_def longest_None filter_empty_conv)

lemma go_module_name_member:
  assumes "go_module_name gomods n = Some m"
  shows "\<exists>module. map_of gomods m = Some module"
proof -
  from assms have "m \<in> fst ` set gomods"
    by (auto simp: go_module_name_def dest: match_parent_module_member split: if_splits)
  then show ?thesis
    using map_of_eq_None_iff [of gomods m] by (cases "map_of gomods m") auto
qed

section \<open>Dependencies of another type\<close>






section \<open>Standard packages and rubygems\<close>





section \<open>Sources of Go packages\<close>

lemma set_sources_loop_Cons:
  "e_name e = Some n \<Longrightarrow>
   set_sources_loop gomods ((k, e) # items) =
     (case go_module_name gomods n of
        Some mn \<Rightarrow>
          (case map_of gomods mn of
             None \<Rightarrow> (Some (KeyError_module (Some mn)), (k, e\<lparr>e_name := None\<rparr>) # items, [])
           | Some module \<Rightarrow>
               (case set_sources_loop gomods items of
                  (r, items', logs) \<Rightarrow>
                    (r, (k, e\<lparr>e_name := None, e_sources := m_dependencies module\<rparr>) # items', logs)))
      | None \<Rightarrow>
          (case set_sources_loop gomods items of
             (r, items', logs) \<Rightarrow>
               (r, (k, e\<lparr>e_name := None\<rparr>) # items',
                Warning ''Could not find a Go module for %s'' (e_purl e) # logs)))"
  by (simp add: Let_def)

lemma set_sources_loop_map:
  "\<forall>(k, e) \<in> set items. e_name e \<noteq> None \<Longrightarrow>
   set_sources_loop gomods items =
     (None,
      map (\<lambda>(k, e).
             (k, case go_module_name gomods (the (e_name e)) of
                   None \<Rightarrow> e\<lparr>e_name := None\<rparr>
                 | Some m \<Rightarrow>
                     e\<lparr>e_name := None, e_sources := m_dependencies (the (map_of gomods m))\<rparr>))
        items,
      map (\<lambda>(k, e). Warning ''Could not find a Go module for %s'' (e_purl e))
        (filter (\<lambda>(k, e). go_module_name gomods (the (e_name e)) = None) items))"
proof (induction items)
  case Nil
  show ?case by simp
next
  case (Cons item items)
  obtain k e where item: "item = (k, e)" by (cases item)
  from Cons.prems item obtain n where n: "e_name e = Some n" by auto
  from Cons have IH: "set_sources_loop gomods items =
     (None,
      map (\<lambda>(k, e).
             (k, case go_module_name gomods (the (e_name e)) of
                   None \<Rightarrow> e\<lparr>e_name := None\<rparr>
                 | Some m \<Rightarrow>
                     e\<lparr>e_name := None, e_sources := m_dependencies (the (map_of gomods m))\<rparr>))
        items,
      map (\<lambda>(k, e). Warning ''Could not find a Go module for %s'' (e_purl e))
        (filter (\<lambda>(k, e). go_module_name gomods (the (e_name e)) = None) items))"
    by simp
  show ?case
  proof (cases "go_module_name gomods n")
    case None
    with item n IH show ?thesis
      by (simp add: set_sources_loop_Cons del: set_sources_loop.simps)
  next
    case (Some m)
    then obtain module where "map_of gomods m = Some module"
      using go_module_name_member by blast
    with Some item n IH show ?thesis
      by (simp add: set_sources_loop_Cons del: set_sources_loop.simps)
  qed
qed

text \<open>
  C5. \<open>set_go_package_sources\<close>, run on an instance whose go-package entries still
  have their name (as \<open>to_json\<close> seeds them), raises nothing and leaves the modules as
  they were. The sources of every go-package entry become the dependencies list of
  the module entry that has the name of the package or, when there is none, of the
  module that \<open>match_parent_module\<close> finds for the name of the package. When no module
  is found, the warning is logged, the loop goes on and the sources of the entry stay
  as they were, so the empty list of a seeded entry stays empty.
\<close>

theorem set_go_package_sources_from_module:
  assumes "\<forall>(k, e) \<in> set (gopkg_data cm). e_name e \<noteq> None"
  shows "\<exists>cm'. set_go_package_sources cm = (None, cm')
     \<and> gomod_data cm' = gomod_data cm
     \<and> list_all2
          (\<lambda>(k, e) (k', e'). k' = k \<and> e_purl e' = e_purl e
             \<and> e_dependencies e' = e_dependencies e
             \<and> (case go_module_name (gomod_data cm) (the (e_name e)) of
                  Some m \<Rightarrow>
                    (\<exists>module. map_of (gomod_data cm) m = Some module
                       \<and> e_sources e' = m_dependencies module)
                | None \<Rightarrow>
                    e_sources e' = e_sources e
                    \<and> Warning ''Could not find a Go module for %s'' (e_purl e)
                        \<in> set (logger cm')))
          (gopkg_data cm) (gopkg_data cm')"
proof -
  let ?f = "\<lambda>(k, e).
             (k, case go_module_name (gomod_data cm) (the (e_name e)) of
                   None \<Rightarrow> e\<lparr>e_name := None\<rparr>
                 | Some m \<Rightarrow>
                     e\<lparr>e_name := None,
                       e_sources := m_dependencies (the (map_of (gomod_data cm) m))\<rparr>)"
  let ?logs = "map (\<lambda>(k, e). Warning ''Could not find a Go module for %s'' (e_purl e))
        (filter (\<lambda>(k, e). go_module_name (gomod_data cm) (the (e_name e)) = None)
           (gopkg_data cm))"
  let ?cm' = "cm\<lparr>gopkg_data := map ?f (gopkg_data cm), logger := logger cm @ ?logs\<rparr>"
  let ?P = "\<lambda>(k, e) (k', e'). k' = k \<and> e_purl e' = e_purl e
             \<and> e_dependencies e' = e_dependencies e
             \<and> (case go_module_name (gomod_data cm) (the (e_name e)) of
                  Some m \<Rightarrow>
                    (\<exists>module. map_of (gomod_data cm) m = Some module
                       \<and> e_sources e' = m_dependencies module)
                | None \<Rightarrow>
                    e_sources e' = e_sources e
                    \<and> Warning ''Could not find a Go module for %s'' (e_purl e)
                        \<in> set (logger ?cm'))"
  have run: "set_go_package_sources cm = (None, ?cm')"
    using set_sources_loop_map [OF assms, of "gomod_data cm"]
    by (simp add: set_go_package_sources_def)
  have each: "?P item (?f item)" if m: "item \<in> set (gopkg_data cm)" for item
  proof -
    obtain k e where item: "item = (k, e)" by (cases item)
    show ?thesis
    proof (cases "go_module_name (gomod_data cm) (the (e_name e))")
      case None
      with m item show ?thesis by force
    next
      case (Some m)
      then obtain module where "map_of (gomod_data cm) m = Some module"
        using go_module_name_member by blast
      with Some item show ?thesis by simp
    qed
  qed
  have "list_all2 ?P (gopkg_data cm) (map ?f (gopkg_data cm))"
    unfolding list_all2_map2 using each by (simp add: list_all2_same)
  with run show ?thesis
    by (intro exI [of _ ?cm']) simp
qed

theorem set_go_package_sources_from_module_witness:
  "map (\<lambda>(k, e). e_name e) (gopkg_data go_manifest) = [Some ''m/p'', Some ''x'']
   \<and> set_go_package_sources go_manifest
       = (None,
          go_manifest
            \<lparr>gopkg_data :=
               [((''m/p'', ''go-package'', Some ''v1'', False),
                 \<lparr>e_name = None, e_purl = ''pkg:golang/m%2Fp@v1'', e_dependencies = [],
                    e_sources = [''pkg:golang/d@v2'']\<rparr>),
                ((''x'', ''go-package'', Some ''v1'', False),
                 \<lparr>e_name = None, e_purl = ''pkg:golang/x@v1'', e_dependencies = [],
                    e_sources = []\<rparr>)],
             logger := [Warning ''Could not find a Go module for %s'' ''pkg:golang/x@v1'']\<rparr>)"
proof -
  have h: "\<forall>(k, e) \<in> set (gopkg_data go_manifest). e_name e \<noteq> None"
    by (simp add: go_manifest_def ContentManifest_def new_entry_def)
  have names: "map (\<lambda>(k, e). e_name e) (gopkg_data go_manifest) = [Some ''m/p'', Some ''x'']"
    by code_simp
  have run: "set_go_package_sources go_manifest
       = (None,
          go_manifest
            \<lparr>gopkg_data :=
               [((''m/p'', ''go-package'', Some ''v1'', False),
                 \<lparr>e_name = None, e_purl = ''pkg:golang/m%2Fp@v1'', e_dependencies = [],
                    e_sources = [''pkg:golang/d@v2'']\<rparr>),
                ((''x'', ''go-package'', Some ''v1'', False),
                 \<lparr>e_name = None, e_purl = ''pkg:golang/x@v1'', e_dependencies = [],
                    e_sources = []\<rparr>)],
             logger := [Warning ''Could not find a Go module for %s'' ''pkg:golang/x@v1'']\<rparr>)"
    by code_simp
  from set_go_package_sources_from_module [OF h] names run show ?thesis by blast
qed

section \<open>What the processors leave as it was\<close>

lemma type_data_update_frame [simp]:
  "packages (type_data_update t f cm) = packages cm"
  "request (type_data_update t f cm) = request cm"
  "gomod_data (type_data_update t f cm) = gomod_data cm"
  "gopkg_data (type_data_update t f cm) = gopkg_data cm"
  "sbom_components (type_data_update t f cm) = sbom_components cm"
  by (simp_all add: type_data_update_def)

lemma process_gomod_frame:
  "packages (snd (process_gomod env ty p d cm)) = packages cm
   \<and> request (snd (process_gomod env ty p d cm)) = request cm"
  by (simp add: process_gomod_def Let_def split: sum.split mode.split option.split)

lemma process_standard_package_frame:
  "packages (snd (process_standard_package env t p d cm)) = packages cm
   \<and> request (snd (process_standard_package env t p d cm)) = request cm"
  by (simp add: process_standard_package_def split: sum.split option.split)

lemma process_standard_package_sbom_frame:
  "packages (snd (process_standard_package_sbom env d cm)) = packages cm
   \<and> request (snd (process_standard_package_sbom env d cm)) = request cm"
  by (simp add: process_standard_package_sbom_def split: sum.split option.split)

lemma process_npm_package_frame:
  "packages (snd (process_npm_package env ty p d cm)) = packages cm
   \<and> request (snd (process_npm_package env ty p d cm)) = request cm"
  by (simp add: process_npm_package_def process_standard_package_frame
      process_standard_package_sbom_frame split: mode.split)

lemma process_pip_package_frame:
  "packages (snd (process_pip_package env ty p d cm)) = packages cm
   \<and> request (snd (process_pip_package env ty p d cm)) = request cm"
  by (simp add: process_pip_package_def process_standard_package_frame
      process_standard_package_sbom_frame split: mode.split)

lemma process_yarn_package_frame:
  "packages (snd (process_yarn_package env ty p d cm)) = packages cm
   \<and> request (snd (process_yarn_package env ty p d cm)) = request cm"
  by (simp add: process_yarn_package_def process_standard_package_frame
      process_standard_package_sbom_frame split: mode.split)

lemma process_rubygems_package_frame:
  "packages (snd (process_rubygems_package env ty p d cm)) = packages cm
   \<and> request (snd (process_rubygems_package env ty p d cm)) = request cm"
  by (simp add: process_rubygems_package_def Let_def
      split: sum.split mode.split option.split)

lemma get_local_dependency_after:
  "snd (get_local_go_package_dep_purl env cm p d) = d
   \<or> (is_local (version d)
       \<and> snd (get_local_go_package_dep_purl env cm p d) = relinked (packages cm) d)"
proof (cases "is_local (version d)")
  case False
  then show ?thesis by (simp add: get_local_go_package_dep_purl_def)
next
  case True
  show ?thesis
  proof (cases "match_parent_module (name d) (map fst (modules_by_name (packages cm)))")
    case None
    with True have "snd (get_local_go_package_dep_purl env cm p d) = d"
      by (simp add: get_local_go_package_dep_purl_def go_modules_by_name_def Let_def
          split: option.split sum.split)
    then show ?thesis by simp
  next
    case (Some m)
    with True have "snd (get_local_go_package_dep_purl env cm p d) = relinked (packages cm) d"
      by (simp add: get_local_go_package_dep_purl_def go_modules_by_name_def Let_def
          relinked_def split: option.split)
    with True show ?thesis by simp
  qed
qed

lemma process_go_package_frame:
  "packages (snd (snd (process_go_package env ty p d cm))) = packages cm
   \<and> request (snd (snd (process_go_package env ty p d cm))) = request cm"
  by (simp add: process_go_package_def split: prod.split sum.split mode.split option.split)

lemma process_go_package_dependency:
  "fst (snd (process_go_package env ty p d cm)) =
     (if type d = ''go-package'' \<and> is_local (version d)
      then snd (get_local_go_package_dep_purl env cm p d) else d)"
  by (simp add: process_go_package_def split: prod.split sum.split mode.split option.split)

lemma process_dependency_frame:
  "packages (snd (snd (process_dependency env ty p d cm))) = packages cm
   \<and> request (snd (snd (process_dependency env ty p d cm))) = request cm"
  by (simp add: process_dependency_def process_go_package_frame process_gomod_frame
      process_npm_package_frame process_pip_package_frame process_yarn_package_frame
      process_rubygems_package_frame case_prod_beta)

lemma process_dependency_dependency:
  "fst (snd (process_dependency env ty p d cm)) =
     (if type p = ''go-package'' \<and> type d = ''go-package'' \<and> is_local (version d)
      then snd (get_local_go_package_dep_purl env cm p d) else d)"
  by (simp add: process_dependency_def process_go_package_dependency split: prod.split)

lemma process_dependency_after:
  assumes "process_dependency env ty p d cm = (r, d', cm')"
  shows "dependency_after (packages cm) p d d'
         \<and> packages cm' = packages cm \<and> request cm' = request cm"
proof -
  from assms process_dependency_frame [of env ty p d cm]
  have frame: "packages cm' = packages cm \<and> request cm' = request cm" by simp
  from assms process_dependency_dependency [of env ty p d cm]
  have "d' = (if type p = ''go-package'' \<and> type d = ''go-package'' \<and> is_local (version d)
      then snd (get_local_go_package_dep_purl env cm p d) else d)" by simp
  with get_local_dependency_after [of env cm p d]
  have "dependency_after (packages cm) p d d'"
    by (auto simp: dependency_after_def split: if_splits)
  with frame show ?thesis by simp
qed

lemma process_dependencies_after:
  "process_dependencies env ty p ds cm = (r, ds', cm') \<Longrightarrow>
   list_all2 (dependency_after (packages cm) p) ds ds'
   \<and> packages cm' = packages cm \<and> request cm' = request cm"
proof (induction ds arbitrary: cm r ds' cm')
  case Nil
  then show ?case by simp
next
  case (Cons d ds)
  obtain r1 d1 cm1 where step: "process_dependency env ty p d cm = (r1, d1, cm1)"
    by (cases "process_dependency env ty p d cm") auto
  note after = process_dependency_after [OF step]
  have refl: "list_all2 (dependency_after (packages cm) p) ds ds"
    by (simp add: list_all2_same dependency_after_def)
  show ?case
  proof (cases r1)
    case (Some e)
    with Cons.prems step have "ds' = d1 # ds" "cm' = cm1" by simp_all
    with after refl show ?thesis by simp
  next
    case None
    obtain r2 ds2 cm2 where rest: "process_dependencies env ty p ds cm1 = (r2, ds2, cm2)"
      by (cases "process_dependencies env ty p ds cm1") auto
    from Cons.IH [OF rest] after
    have IH: "list_all2 (dependency_after (packages cm) p) ds ds2"
      "packages cm2 = packages cm" "request cm2 = request cm"
      by simp_all
    from None Cons.prems step rest have "ds' = d1 # ds2" "cm' = cm2" by simp_all
    with IH after show ?thesis by simp
  qed
qed

lemma process_packages_after:
  "process_packages env ty ps cm = (r, ps', cm') \<Longrightarrow>
   list_all2 (package_after (packages cm)) ps ps'
   \<and> packages cm' = packages cm \<and> request cm' = request cm"
proof (induction ps arbitrary: cm r ps' cm')
  case Nil
  then show ?case by simp
next
  case (Cons p ps)
  obtain r1 ds1 cm1 where step:
    "process_dependencies env ty p (dependencies p) cm = (r1, ds1, cm1)"
    by (cases "process_dependencies env ty p (dependencies p) cm") auto
  note after = process_dependencies_after [OF step]
  have refl: "list_all2 (package_after (packages cm)) ps ps"
    by (simp add: list_all2_same package_after_def dependency_after_def)
  have here: "package_after (packages cm) p
    (Package (name p) (type p) (version p) (dev p) (path p) ds1)"
    using after by (simp add: package_after_def)
  show ?case
  proof (cases r1)
    case (Some e)
    with Cons.prems step
    have "ps' = Package (name p) (type p) (version p) (dev p) (path p) ds1 # ps" "cm' = cm1"
      by simp_all
    with after refl here show ?thesis by simp
  next
    case None
    obtain r2 ps2 cm2 where rest: "process_packages env ty ps cm1 = (r2, ps2, cm2)"
      by (cases "process_packages env ty ps cm1") auto
    from Cons.IH [OF rest] after
    have IH: "list_all2 (package_after (packages cm)) ps ps2"
      "packages cm2 = packages cm" "request cm2 = request cm"
      by simp_all
    from None Cons.prems step rest
    have "ps' = Package (name p) (type p) (version p) (dev p) (path p) ds1 # ps2" "cm' = cm2"
      by simp_all
    with IH here show ?thesis by simp
  qed
qed

lemma for_each_frame:
  assumes body: "\<And>x cm. packages (snd (body x cm)) = packages cm
      \<and> request (snd (body x cm)) = request cm"
  shows "packages (snd (for_each body xs cm)) = packages cm
      \<and> request (snd (for_each body xs cm)) = request cm"
proof (induction xs arbitrary: cm)
  case Nil
  show ?case by simp
next
  case (Cons x xs)
  obtain r1 cm1 where step: "body x cm = (r1, cm1)" by (cases "body x cm") auto
  with body [of x cm] have f: "packages cm1 = packages cm" "request cm1 = request cm"
    by simp_all
  show ?case
  proof (cases r1)
    case (Some e)
    with step f show ?thesis by simp
  next
    case None
    with step Cons.IH [of cm1] f show ?thesis by simp
  qed
qed

lemma seed_package_frame:
  "packages (snd (seed_package env p cm)) = packages cm
   \<and> request (snd (seed_package env p cm)) = request cm"
  by (simp add: seed_package_def split: sum.split)

lemma sbom_package_frame:
  "packages (snd (sbom_package env p cm)) = packages cm
   \<and> request (snd (sbom_package env p cm)) = request cm"
  by (simp add: sbom_package_def Let_def split: sum.split)

lemma set_go_package_sources_frame:
  "packages (snd (set_go_package_sources cm)) = packages cm
   \<and> request (snd (set_go_package_sources cm)) = request cm
   \<and> gomod_data (snd (set_go_package_sources cm)) = gomod_data cm"
  by (simp add: set_go_package_sources_def case_prod_beta)

lemma package_after_refl: "list_all2 (package_after pkgs) ps ps"
  by (simp add: list_all2_same package_after_def dependency_after_def)

lemma to_json_packages_after:
  "list_all2 (package_after (packages cm)) (packages cm) (packages (snd (to_json env cm)))
   \<and> request (snd (to_json env cm)) = request cm"
proof -
  let ?cm0 = "cm\<lparr>gopkg_data := [], gomod_data := [], npm_data := [], pip_data := [],
                   yarn_data := [], rubygems_data := [], gitsubmodule_data := []\<rparr>"
  obtain r1 cm1 where seed: "for_each (seed_package env) (packages cm) ?cm0 = (r1, cm1)"
    by (cases "for_each (seed_package env) (packages cm) ?cm0") auto
  from for_each_frame [of "seed_package env" "packages cm" ?cm0, OF seed_package_frame] seed
  have f1: "packages cm1 = packages cm" "request cm1 = request cm" by simp_all
  show ?thesis
  proof (cases r1)
    case (Some e)
    with seed have "snd (to_json env cm) = cm1" by (simp add: to_json_def)
    with f1 package_after_refl show ?thesis by simp
  next
    case None
    obtain r2 ps cm2 where pass: "process_packages env Icm (packages cm) cm1 = (r2, ps, cm2)"
      by (cases "process_packages env Icm (packages cm) cm1") auto
    from process_packages_after [OF pass] f1
    have f2: "list_all2 (package_after (packages cm)) (packages cm) ps"
      "request cm2 = request cm" by simp_all
    show ?thesis
    proof (cases r2)
      case (Some e)
      with None seed pass f1 have "snd (to_json env cm) = cm2\<lparr>packages := ps\<rparr>"
        by (simp add: to_json_def)
      with f2 show ?thesis by simp
    next
      case None2: None
      from None None2 seed pass f1
      have "snd (to_json env cm) = snd (set_go_package_sources (cm2\<lparr>packages := ps\<rparr>))"
        by (simp add: to_json_def Let_def split: prod.split option.split)
      with set_go_package_sources_frame [of "cm2\<lparr>packages := ps\<rparr>"] f2
      show ?thesis by simp
    qed
  qed
qed

lemma sbom_packages_after:
  "list_all2 (package_after (packages cm)) (packages cm)
     (packages (snd (sbom_components_list env cm)))
   \<and> request (snd (sbom_components_list env cm)) = request cm"
proof -
  let ?cm0 = "cm\<lparr>sbom_components := [], gomod_data := []\<rparr>"
  obtain r1 cm1 where seed: "for_each (sbom_package env) (packages cm) ?cm0 = (r1, cm1)"
    by (cases "for_each (sbom_package env) (packages cm) ?cm0") auto
  from for_each_frame [of "sbom_package env" "packages cm" ?cm0, OF sbom_package_frame] seed
  have f1: "packages cm1 = packages cm" "request cm1 = request cm" by simp_all
  show ?thesis
  proof (cases r1)
    case (Some e)
    with seed have "snd (sbom_components_list env cm) = cm1"
      by (simp add: sbom_components_list_def)
    with f1 package_after_refl show ?thesis by simp
  next
    case None
    obtain r2 ps cm2 where pass: "process_packages env Sbom (packages cm) cm1 = (r2, ps, cm2)"
      by (cases "process_packages env Sbom (packages cm) cm1") auto
    from process_packages_after [OF pass] f1
    have f2: "list_all2 (package_after (packages cm)) (packages cm) ps"
      "request cm2 = request cm" by simp_all
    from None seed pass f1 have "snd (sbom_components_list env cm) = cm2\<lparr>packages := ps\<rparr>"
      by (cases r2) (simp_all add: sbom_components_list_def)
    with f2 show ?thesis by simp
  qed
qed

section \<open>The packages after a call\<close>

lemma setitem_member:
  "(k', v') \<in> set (setitem k v d) \<Longrightarrow> (k', v') = (k, v) \<or> (k', v') \<in> set d"
  by (auto simp: setitem_def adjust_def split: option.splits if_splits)

lemma fold_setitem_member:
  "(n, p) \<in> set (fold (\<lambda>module d. setitem (name module) module d) xs acc) \<Longrightarrow>
   (n, p) \<in> set acc \<or> (p \<in> set xs \<and> name p = n)"
proof (induction xs arbitrary: acc)
  case Nil
  then show ?case by simp
next
  case (Cons x xs)
  from Cons.IH [of "setitem (name x) x acc"] Cons.prems
  have "(n, p) \<in> set (setitem (name x) x acc) \<or> (p \<in> set xs \<and> name p = n)" by simp
  then show ?case using setitem_member [of n p "name x" x acc] by auto
qed

lemma modules_by_name_member:
  "map_of (modules_by_name pkgs) m = Some module \<Longrightarrow>
   module \<in> set pkgs \<and> type module = ''gomod'' \<and> name module = m"
  using fold_setitem_member [of m module "filter (\<lambda>module. type module = ''gomod'') pkgs" "[]"]
  by (auto simp: modules_by_name_def dest: map_of_SomeD)

lemma relinked_fields:
  "name (relinked pkgs d) = name d \<and> type (relinked pkgs d) = type d
   \<and> dev (relinked pkgs d) = dev d \<and> path (relinked pkgs d) = path d
   \<and> dependencies (relinked pkgs d) = dependencies d"
  by (simp add: relinked_def split: option.split)

lemma relinked_version:
  "version (relinked pkgs d) \<noteq> version d \<Longrightarrow>
   \<exists>module \<in> set pkgs. type module = ''gomod'' \<and> contains_package (name module) (name d)
      \<and> version (relinked pkgs d) = version module"
proof -
  assume changed: "version (relinked pkgs d) \<noteq> version d"
  then obtain m module where
    m: "match_parent_module (name d) (map fst (modules_by_name pkgs)) = Some m"
    and module: "map_of (modules_by_name pkgs) m = Some module"
    by (auto simp: relinked_def split: option.splits)
  from m module have "version (relinked pkgs d) = version module"
    by (simp add: relinked_def)
  with modules_by_name_member [OF module] match_parent_module_member [OF m]
  show ?thesis by auto
qed

lemma dependency_after_fields:
  assumes "dependency_after pkgs p d d'"
  shows "name d' = name d \<and> type d' = type d \<and> dev d' = dev d \<and> path d' = path d
     \<and> dependencies d' = dependencies d
     \<and> (version d' \<noteq> version d \<longrightarrow>
          type p = ''go-package'' \<and> type d = ''go-package'' \<and> is_local (version d)
          \<and> (\<exists>module \<in> set pkgs. type module = ''gomod''
                \<and> contains_package (name module) (name d) \<and> version d' = version module))"
  using assms relinked_fields [of pkgs d] relinked_version [of pkgs d]
  by (auto simp: dependency_after_def)

lemma package_after_fields:
  assumes "list_all2 (package_after pkgs) ps ps'"
  shows "list_all2
     (\<lambda>p p'. name p' = name p \<and> type p' = type p \<and> version p' = version p
        \<and> dev p' = dev p \<and> path p' = path p
        \<and> list_all2
             (\<lambda>d d'. name d' = name d \<and> type d' = type d \<and> dev d' = dev d
                \<and> path d' = path d \<and> dependencies d' = dependencies d
                \<and> (version d' \<noteq> version d \<longrightarrow>
                     type p = ''go-package'' \<and> type d = ''go-package''
                     \<and> is_local (version d)
                     \<and> (\<exists>module \<in> set pkgs. type module = ''gomod''
                           \<and> contains_package (name module) (name d)
                           \<and> version d' = version module)))
             (dependencies p) (dependencies p'))
     ps ps'"
proof (rule list_all2_mono [OF assms])
  fix p p' assume after: "package_after pkgs p p'"
  then have deps: "list_all2 (dependency_after pkgs p) (dependencies p) (dependencies p')"
    by (simp add: package_after_def)
  have "list_all2
             (\<lambda>d d'. name d' = name d \<and> type d' = type d \<and> dev d' = dev d
                \<and> path d' = path d \<and> dependencies d' = dependencies d
                \<and> (version d' \<noteq> version d \<longrightarrow>
                     type p = ''go-package'' \<and> type d = ''go-package''
                     \<and> is_local (version d)
                     \<and> (\<exists>module \<in> set pkgs. type module = ''gomod''
                           \<and> contains_package (name module) (name d)
                           \<and> version d' = version module)))
             (dependencies p) (dependencies p')"
    by (rule list_all2_mono [OF deps]) (rule dependency_after_fields)
  with after show "name p' = name p \<and> type p' = type p \<and> version p' = version p
        \<and> dev p' = dev p \<and> path p' = path p
        \<and> list_all2
             (\<lambda>d d'. name d' = name d \<and> type d' = type d \<and> dev d' = dev d
                \<and> path d' = path d \<and> dependencies d' = dependencies d
                \<and> (version d' \<noteq> version d \<longrightarrow>
                     type p = ''go-package'' \<and> type d = ''go-package''
                     \<and> is_local (version d)
                     \<and> (\<exists>module \<in> set pkgs. type module = ''gomod''
                           \<and> contains_package (name module) (name d)
                           \<and> version d' = version module)))
             (dependencies p) (dependencies p')"
    by (simp add: package_after_def)
qed

text \<open>
  C8, as the claim states it, fails: \<open>to_json\<close> on a module \<open>m\<close> and a go-package
  \<open>m/p\<close> whose dependency \<open>m/q\<close> has the local version \<open>./q\<close> leaves that dependency
  with the version \<open>v1\<close> of the module.
\<close>

theorem packages_unchanged_counterexample:
  "packages (snd (to_json spec_env (ContentManifest example_request local_go_packages)))
     = [Package ''m'' ''gomod'' (Some ''v1'') False None [],
        Package ''m/p'' ''go-package'' (Some ''v1'') False None
          [Package ''m/q'' ''go-package'' (Some ''v1'') False None []]]
   \<and> packages (snd (to_json spec_env (ContentManifest example_request local_go_packages)))
     \<noteq> local_go_packages
   \<and> packages (snd (sbom_components_list spec_env
        (ContentManifest example_request local_go_packages)))
     \<noteq> local_go_packages"
  by code_simp

text \<open>
  C8, amended. \<open>to_json\<close> and \<open>sbom_components_list\<close> leave the request and the name,
  type, version, dev flag and path of every package as they were, and the name, type,
  dev flag, path and dependencies of each of its dependencies. The one field a call
  may change is the version of a dependency, and only of a go-package dependency with
  a local version owned by a go-package: it becomes the version of a module among the
  packages whose name is a parent of the name of the dependency.
\<close>

theorem packages_change_only_in_local_versions:
  "list_all2
     (\<lambda>p p'. name p' = name p \<and> type p' = type p \<and> version p' = version p
        \<and> dev p' = dev p \<and> path p' = path p
        \<and> list_all2
             (\<lambda>d d'. name d' = name d \<and> type d' = type d \<and> dev d' = dev d
                \<and> path d' = path d \<and> dependencies d' = dependencies d
                \<and> (version d' \<noteq> version d \<longrightarrow>
                     type p = ''go-package'' \<and> type d = ''go-package''
                     \<and> is_local (version d)
                     \<and> (\<exists>module \<in> set (packages cm). type module = ''gomod''
                           \<and> contains_package (name module) (name d)
                           \<and> version d' = version module)))
             (dependencies p) (dependencies p'))
     (packages cm) (packages (snd (to_json env cm)))
   \<and> request (snd (to_json env cm)) = request cm
   \<and> list_all2
     (\<lambda>p p'. name p' = name p \<and> type p' = type p \<and> version p' = version p
        \<and> dev p' = dev p \<and> path p' = path p
        \<and> list_all2
             (\<lambda>d d'. name d' = name d \<and> type d' = type d \<and> dev d' = dev d
                \<and> path d' = path d \<and> dependencies d' = dependencies d
                \<and> (version d' \<noteq> version d \<longrightarrow>
                     type p = ''go-package'' \<and> type d = ''go-package''
                     \<and> is_local (version d)
                     \<and> (\<exists>module \<in> set (packages cm). type module = ''gomod''
                           \<and> contains_package (name module) (name d)
                           \<and> version d' = version module)))
             (dependencies p) (dependencies p'))
     (packages cm) (packages (snd (sbom_components_list env cm)))
   \<and> request (snd (sbom_components_list env cm)) = request cm"
  using package_after_fields [of "packages cm" "packages cm" "packages (snd (to_json env cm))"]
    package_after_fields [of "packages cm" "packages cm"
      "packages (snd (sbom_components_list env cm))"]
    to_json_packages_after [of cm env] sbom_packages_after [of cm env]
  by blast

theorem packages_change_only_in_local_versions_witness:
  "version (hd (dependencies (packages (snd (to_json spec_env local_go_manifest)) ! 1)))
     = Some ''v1''
   \<and> version (hd (dependencies (packages local_go_manifest ! 1))) = Some ''./q''
   \<and> type (packages local_go_manifest ! 1) = ''go-package''
   \<and> type (hd (dependencies (packages local_go_manifest ! 1))) = ''go-package''
   \<and> is_local (version (hd (dependencies (packages local_go_manifest ! 1))))
   \<and> type (packages local_go_manifest ! 0) = ''gomod''
   \<and> version (packages local_go_manifest ! 0) = Some ''v1''
   \<and> contains_package (name (packages local_go_manifest ! 0))
        (name (hd (dependencies (packages local_go_manifest ! 1))))
   \<and> map name (packages (snd (to_json spec_env local_go_manifest)))
       = map name (packages local_go_manifest)"
proof -
  have c: "type (packages local_go_manifest ! 1) = ''go-package''
   \<and> type (hd (dependencies (packages local_go_manifest ! 1))) = ''go-package''
   \<and> is_local (version (hd (dependencies (packages local_go_manifest ! 1))))
   \<and> type (packages local_go_manifest ! 0) = ''gomod''
   \<and> version (packages local_go_manifest ! 0) = Some ''v1''
   \<and> contains_package (name (packages local_go_manifest ! 0))
        (name (hd (dependencies (packages local_go_manifest ! 1))))
   \<and> map name (packages (snd (to_json spec_env local_go_manifest)))
       = map name (packages local_go_manifest)"
    by code_simp
  have a: "version (hd (dependencies (packages (snd (to_json spec_env local_go_manifest)) ! 1)))
     = Some ''v1''"
    by code_simp
  have b: "version (hd (dependencies (packages local_go_manifest ! 1))) = Some ''./q''"
    by code_simp
  from packages_change_only_in_local_versions [of local_go_manifest spec_env] a b c
  show ?thesis by blast
qed

section \<open>Local dependencies of Go packages\<close>

lemma is_local_version: "is_local v \<Longrightarrow> \<exists>s. v = Some s"
  by (cases v) (simp_all add: is_local_def)

lemma modules_lookup:
  assumes "match_parent_module n (map fst modules) = Some m"
  shows "\<exists>module. map_of modules m = Some module"
proof -
  from match_parent_module_member [OF assms] have "m \<in> fst ` set modules" by simp
  then show ?thesis
    using map_of_eq_None_iff [of modules m] by (cases "map_of modules m") auto
qed

lemma get_local_not_local:
  "\<not> is_local (version dependency) \<Longrightarrow>
   fst (get_local_go_package_dep_purl env cm package dependency)
     = Inl (ValueError_invalid_local_version (ident dependency))"
  by (simp add: get_local_go_package_dep_purl_def)

lemma get_local_in_module:
  assumes "is_local (version dependency)"
    and "match_parent_module (name dependency) (map fst (go_modules_by_name cm)) = Some m"
  shows "fst (get_local_go_package_dep_purl env cm package dependency)
     = codec_result (to_purl env (ident (relinked (packages cm) dependency)) None)"
proof -
  from modules_lookup [OF assms(2)] obtain module
    where "map_of (go_modules_by_name cm) m = Some module" by blast
  with assms show ?thesis
    by (simp add: get_local_go_package_dep_purl_def relinked_def go_modules_by_name_def [symmetric]
        Let_def)
qed

lemma get_local_no_package_module:
  assumes "is_local (version dependency)"
    and "match_parent_module (name dependency) (map fst (go_modules_by_name cm)) = None"
    and "match_parent_module (name package) (map fst (go_modules_by_name cm)) = None"
  shows "fst (get_local_go_package_dep_purl env cm package dependency)
     = Inl (RuntimeError_no_parent_module (name package))"
  using assms by (simp add: get_local_go_package_dep_purl_def Let_def)

lemma get_local_no_path_module:
  assumes "is_local (version dependency)" and "version dependency = Some v"
    and "match_parent_module (name dependency) (map fst (go_modules_by_name cm)) = None"
    and "match_parent_module (name package) (map fst (go_modules_by_name cm)) = Some pm"
    and "match_parent_module (normpath_join env pm v) (map fst (go_modules_by_name cm)) = None"
  shows "fst (get_local_go_package_dep_purl env cm package dependency)
     = Inl (RuntimeError_no_parent_module (normpath_join env pm v))"
  using assms by (simp add: get_local_go_package_dep_purl_def Let_def)

lemma get_local_path_module:
  assumes "is_local (version dependency)" and "version dependency = Some v"
    and "match_parent_module (name dependency) (map fst (go_modules_by_name cm)) = None"
    and "match_parent_module (name package) (map fst (go_modules_by_name cm)) = Some pm"
    and "match_parent_module (normpath_join env pm v) (map fst (go_modules_by_name cm)) = Some dm"
  shows "fst (get_local_go_package_dep_purl env cm package dependency)
     = (case relative_to env (normpath_join env pm v) dm of
          None \<Rightarrow> Inl (ValueError_not_relative (normpath_join env pm v) dm)
        | Some rel \<Rightarrow>
            (case map_of (gomod_data cm) dm of
               None \<Rightarrow> Inl (KeyError_module (Some dm))
             | Some parent \<Rightarrow>
                 (case to_purl env (ident dependency) (Some rel) of
                    None \<Rightarrow> Inl ContentManifestError
                  | Some dep_purl \<Rightarrow>
                      Inr (replace_parent_purl_placeholder env dep_purl (m_purl parent)))))"
  using assms
  by (simp add: get_local_go_package_dep_purl_def Let_def gomod_purl_def codec_result_def
      split: option.split)

text \<open>
  C7, as the claim states it, fails in three ways. A package whose name matches no
  module gets a purl, with no error, for a local dependency whose name matches a
  module. A dependency whose name matches a module raises the \<open>ValueError\<close> when its
  version is not local. And on an instance whose module map is not seeded (before
  \<open>to_json\<close> ran) a dependency in none of the three cases of the claim raises a
  \<open>KeyError\<close>.
\<close>

theorem get_local_go_package_dep_purl_counterexample:
  "match_parent_module (name stray_go_package)
       (map fst (go_modules_by_name local_go_manifest)) = None
   \<and> fst (get_local_go_package_dep_purl spec_env local_go_manifest stray_go_package
            local_go_dependency) = Inr ''pkg:golang/m%2Fq@v1''
   \<and> match_parent_module (name versioned_go_dependency)
       (map fst (go_modules_by_name local_go_manifest)) = Some ''m''
   \<and> fst (get_local_go_package_dep_purl spec_env local_go_manifest (local_go_packages ! 1)
            versioned_go_dependency)
       = Inl (ValueError_invalid_local_version (ident versioned_go_dependency))
   \<and> is_local (version outside_go_dependency)
   \<and> match_parent_module (name (local_go_packages ! 1))
       (map fst (go_modules_by_name local_go_manifest)) = Some ''m''
   \<and> match_parent_module (normpath_join spec_env ''m'' ''./sub'')
       (map fst (go_modules_by_name local_go_manifest)) = Some ''m''
   \<and> fst (get_local_go_package_dep_purl spec_env local_go_manifest (local_go_packages ! 1)
            outside_go_dependency)
       = Inl (KeyError_module (Some ''m''))"
  by code_simp

section \<open>The SBOM component list\<close>

lemma component_fields_new [simp]:
  "component_fields (new_component x purl) = expected_fields x"
  by (simp add: component_fields_def expected_fields_def new_component_def)

lemma sbom_package_components:
  "map component_fields (sbom_components (snd (sbom_package env p cm)))
   = map component_fields (sbom_components cm)
     @ (if fst (sbom_package env p cm) = None
           \<and> type p \<in> set [''go-package'', ''gomod'', ''npm'', ''pip'', ''yarn'', ''rubygems'',
                             ''git-submodule'']
        then [expected_fields p] else [])"
  by (simp add: sbom_package_def Let_def split: sum.split)

lemma for_each_sbom_package_components:
  "fst (for_each (sbom_package env) ps cm) = None \<Longrightarrow>
   map component_fields (sbom_components (snd (for_each (sbom_package env) ps cm)))
   = map component_fields (sbom_components cm)
     @ map expected_fields
         (filter (\<lambda>p. type p \<in> set [''go-package'', ''gomod'', ''npm'', ''pip'', ''yarn'',
                                       ''rubygems'', ''git-submodule'']) ps)"
proof (induction ps arbitrary: cm)
  case Nil
  show ?case by simp
next
  case (Cons p ps)
  obtain r1 cm1 where step: "sbom_package env p cm = (r1, cm1)"
    by (cases "sbom_package env p cm") auto
  with Cons.prems have r1: "r1 = None" by (cases r1) auto
  with step Cons.prems have rest: "fst (for_each (sbom_package env) ps cm1) = None" by simp
  from sbom_package_components [of env p cm] step r1
  have here: "map component_fields (sbom_components cm1)
   = map component_fields (sbom_components cm)
     @ (if type p \<in> set [''go-package'', ''gomod'', ''npm'', ''pip'', ''yarn'', ''rubygems'',
                             ''git-submodule'']
        then [expected_fields p] else [])"
    by simp
  from Cons.IH [OF rest] here step r1 show ?case by simp
qed

lemma process_gomod_components:
  "map component_fields (sbom_components (snd (process_gomod env Sbom p d cm)))
   = map component_fields (sbom_components cm)
     @ (if fst (process_gomod env Sbom p d cm) = None \<and> type d = ''gomod''
        then [expected_fields d] else [])"
  by (simp add: process_gomod_def Let_def split: sum.split option.split)

lemma process_standard_package_sbom_components:
  "map component_fields (sbom_components (snd (process_standard_package_sbom env d cm)))
   = map component_fields (sbom_components cm)
     @ (if fst (process_standard_package_sbom env d cm) = None
        then [expected_fields d] else [])"
  by (simp add: process_standard_package_sbom_def split: sum.split)

lemma process_npm_package_components:
  "map component_fields (sbom_components (snd (process_npm_package env Sbom p d cm)))
   = map component_fields (sbom_components cm)
     @ (if fst (process_npm_package env Sbom p d cm) = None \<and> type d = ''npm''
        then [expected_fields d] else [])"
  by (simp add: process_npm_package_def process_standard_package_sbom_components)

lemma process_pip_package_components:
  "map component_fields (sbom_components (snd (process_pip_package env Sbom p d cm)))
   = map component_fields (sbom_components cm)
     @ (if fst (process_pip_package env Sbom p d cm) = None \<and> type d = ''pip''
        then [expected_fields d] else [])"
  by (simp add: process_pip_package_def process_standard_package_sbom_components)

lemma process_yarn_package_components:
  "map component_fields (sbom_components (snd (process_yarn_package env Sbom p d cm)))
   = map component_fields (sbom_components cm)
     @ (if fst (process_yarn_package env Sbom p d cm) = None \<and> type d = ''yarn''
        then [expected_fields d] else [])"
  by (simp add: process_yarn_package_def process_standard_package_sbom_components)

lemma process_rubygems_package_components:
  "map component_fields (sbom_components (snd (process_rubygems_package env Sbom p d cm)))
   = map component_fields (sbom_components cm)
     @ (if fst (process_rubygems_package env Sbom p d cm) = None \<and> type d = ''rubygems''
        then [expected_fields d] else [])"
  by (simp add: process_rubygems_package_def Let_def split: sum.split)

lemma process_go_package_components:
  "map component_fields (sbom_components (snd (snd (process_go_package env Sbom p d cm))))
   = map component_fields (sbom_components cm)
     @ (if fst (process_go_package env Sbom p d cm) = None \<and> type d = ''go-package''
        then [expected_fields (fst (snd (process_go_package env Sbom p d cm)))] else [])"
  by (simp add: process_go_package_def split: prod.split sum.split)

lemma process_dependency_components:
  "map component_fields (sbom_components (snd (snd (process_dependency env Sbom p d cm))))
   = map component_fields (sbom_components cm)
     @ (if fst (process_dependency env Sbom p d cm) = None \<and> type d = type p
           \<and> type p \<in> set [''go-package'', ''gomod'', ''npm'', ''pip'', ''yarn'', ''rubygems'']
        then [expected_fields (fst (snd (process_dependency env Sbom p d cm)))] else [])"
  by (simp add: process_dependency_def process_go_package_components process_gomod_components
      process_npm_package_components process_pip_package_components
      process_yarn_package_components process_rubygems_package_components case_prod_beta)

lemma process_dependency_type:
  "type (fst (snd (process_dependency env ty p d cm))) = type d"
proof -
  obtain r d' cm' where step: "process_dependency env ty p d cm = (r, d', cm')"
    by (cases "process_dependency env ty p d cm") auto
  from process_dependency_after [OF step] dependency_after_fields [of "packages cm" p d d']
  have "type d' = type d" by simp
  with step show ?thesis by simp
qed

lemma process_dependencies_components:
  "process_dependencies env Sbom p ds cm = (None, ds', cm') \<Longrightarrow>
   map component_fields (sbom_components cm')
   = map component_fields (sbom_components cm)
     @ map expected_fields
         (filter (\<lambda>d. type d = type p
            \<and> type p \<in> set [''go-package'', ''gomod'', ''npm'', ''pip'', ''yarn'', ''rubygems''])
          ds')"
proof (induction ds arbitrary: cm ds' cm')
  case Nil
  then show ?case by simp
next
  case (Cons d ds)
  obtain r1 d1 cm1 where step: "process_dependency env Sbom p d cm = (r1, d1, cm1)"
    by (cases "process_dependency env Sbom p d cm") auto
  obtain r2 ds2 cm2 where rest: "process_dependencies env Sbom p ds cm1 = (r2, ds2, cm2)"
    by (cases "process_dependencies env Sbom p ds cm1") auto
  from Cons.prems step have r1: "r1 = None" by (cases r1) auto
  with Cons.prems step rest have r2: "r2 = None" and ds': "ds' = d1 # ds2" and cm': "cm' = cm2"
    by simp_all
  from process_dependency_type [of env Sbom p d cm] step have ty: "type d1 = type d" by simp
  from process_dependency_components [of env p d cm] step r1 ty
  have here: "map component_fields (sbom_components cm1)
   = map component_fields (sbom_components cm)
     @ (if type d1 = type p
           \<and> type p \<in> set [''go-package'', ''gomod'', ''npm'', ''pip'', ''yarn'', ''rubygems'']
        then [expected_fields d1] else [])"
    by simp
  from Cons.IH [of cm1 ds2 cm2] rest r2
  have "map component_fields (sbom_components cm2)
   = map component_fields (sbom_components cm1)
     @ map expected_fields
         (filter (\<lambda>d. type d = type p
            \<and> type p \<in> set [''go-package'', ''gomod'', ''npm'', ''pip'', ''yarn'', ''rubygems''])
          ds2)"
    by simp
  with here ds' cm' show ?case by simp
qed

lemma processed_dependencies_Package:
  "processed_dependencies (Package n t v dv pa ds)
   = filter (\<lambda>d. type d = t
       \<and> t \<in> set [''go-package'', ''gomod'', ''npm'', ''pip'', ''yarn'', ''rubygems'']) ds"
  by (simp add: processed_dependencies_def)

lemma process_packages_components:
  "process_packages env Sbom ps cm = (None, ps', cm') \<Longrightarrow>
   map component_fields (sbom_components cm')
   = map component_fields (sbom_components cm)
     @ map expected_fields (concat (map processed_dependencies ps'))"
proof (induction ps arbitrary: cm ps' cm')
  case Nil
  then show ?case by simp
next
  case (Cons p ps)
  obtain r1 ds1 cm1 where step:
    "process_dependencies env Sbom p (dependencies p) cm = (r1, ds1, cm1)"
    by (cases "process_dependencies env Sbom p (dependencies p) cm") auto
  obtain r2 ps2 cm2 where rest: "process_packages env Sbom ps cm1 = (r2, ps2, cm2)"
    by (cases "process_packages env Sbom ps cm1") auto
  from Cons.prems step have r1: "r1 = None" by (cases r1) auto
  with Cons.prems step rest have r2: "r2 = None"
    and ps': "ps' = Package (name p) (type p) (version p) (dev p) (path p) ds1 # ps2"
    and cm': "cm' = cm2"
    by simp_all
  from process_dependencies_components [of env p "dependencies p" cm ds1 cm1] step r1
  have here: "map component_fields (sbom_components cm1)
   = map component_fields (sbom_components cm)
     @ map expected_fields
         (processed_dependencies (Package (name p) (type p) (version p) (dev p) (path p) ds1))"
    by (simp add: processed_dependencies_Package)
  from Cons.IH [of cm1 ps2 cm2] rest r2
  have "map component_fields (sbom_components cm2)
   = map component_fields (sbom_components cm1)
     @ map expected_fields (concat (map processed_dependencies ps2))"
    by simp
  with here ps' cm' show ?case by simp
qed

lemma sbom_components_list_fields:
  assumes "fst (sbom_components_list env cm) = Inr comps"
  shows "map component_fields comps
   = map expected_fields
       (filter (\<lambda>p. type p \<in> set [''go-package'', ''gomod'', ''npm'', ''pip'', ''yarn'',
                                     ''rubygems'', ''git-submodule'']) (packages cm)
        @ concat (map processed_dependencies (packages (snd (sbom_components_list env cm)))))"
proof -
  let ?cm0 = "cm\<lparr>sbom_components := [], gomod_data := []\<rparr>"
  obtain r1 cm1 where seed: "for_each (sbom_package env) (packages cm) ?cm0 = (r1, cm1)"
    by (cases "for_each (sbom_package env) (packages cm) ?cm0") auto
  with assms have r1: "r1 = None"
    by (cases r1) (simp_all add: sbom_components_list_def)
  from for_each_frame [of "sbom_package env" "packages cm" ?cm0, OF sbom_package_frame] seed
  have f1: "packages cm1 = packages cm" by simp
  obtain r2 ps cm2 where pass: "process_packages env Sbom (packages cm) cm1 = (r2, ps, cm2)"
    by (cases "process_packages env Sbom (packages cm) cm1") auto
  with assms seed r1 f1 have r2: "r2 = None"
    by (cases r2) (simp_all add: sbom_components_list_def)
  from assms seed r1 f1 pass r2 have comps: "comps = sbom_components cm2"
    and after: "packages (snd (sbom_components_list env cm)) = ps"
    by (simp_all add: sbom_components_list_def)
  from for_each_sbom_package_components [of env "packages cm" ?cm0] seed r1
  have tops: "map component_fields (sbom_components cm1)
   = map expected_fields
       (filter (\<lambda>p. type p \<in> set [''go-package'', ''gomod'', ''npm'', ''pip'', ''yarn'',
                                     ''rubygems'', ''git-submodule'']) (packages cm))"
    by simp
  from process_packages_components [of env "packages cm" cm1 ps cm2] pass r2
  have "map component_fields (sbom_components cm2)
   = map component_fields (sbom_components cm1)
     @ map expected_fields (concat (map processed_dependencies ps))"
    by simp
  with tops comps after show ?thesis by simp
qed

text \<open>
  C6, as the claim states it, fails: with a module \<open>m\<close> that has no version, the
  dependency \<open>m/q\<close> of the go-package \<open>m/p\<close> has the version \<open>./q\<close>, and its component
  has no version key.
\<close>

theorem sbom_version_key_counterexample:
  "fst (sbom_components_list spec_env
         (ContentManifest example_request unversioned_module_packages))
     = Inr [\<lparr>c_type = ''library'', c_name = ''m'', c_purl = ''pkg:golang/m'',
               c_version = None\<rparr>,
            \<lparr>c_type = ''library'', c_name = ''m/p'', c_purl = ''pkg:golang/m%2Fp@v1'',
               c_version = Some ''v1''\<rparr>,
            \<lparr>c_type = ''library'', c_name = ''m/q'', c_purl = ''pkg:golang/m%2Fq'',
               c_version = None\<rparr>]
   \<and> dependencies (unversioned_module_packages ! 1)
     = [Package ''m/q'' ''go-package'' (Some ''./q'') False None []]"
  by code_simp

section \<open>The image content manifest of a request\<close>

lemma purls_of_adjust:
  "(\<And>e. e_purl (f e) = e_purl e) \<Longrightarrow> purls_of (adjust k f m) = purls_of m"
  by (induction m) (auto simp: purls_of_def adjust_def)

lemma purls_of_keys [simp]: "map fst (purls_of m) = map fst m"
  by (induction m) (auto simp: purls_of_def)

lemma purls_of_setdefault:
  "purls_of (setdefault k e m)
   = (if k \<in> set (map fst m) then purls_of m else purls_of m @ [(k, e_purl e)])"
proof (cases "map_of m k")
  case None
  then have "k \<notin> set (map fst m)" by (simp add: map_of_eq_None_iff)
  with None show ?thesis by (simp add: setdefault_def purls_of_def)
next
  case (Some v)
  then have "k \<in> set (map fst m)"
    using map_of_eq_None_iff [of m k] by auto
  with Some show ?thesis by (simp add: setdefault_def)
qed

lemma top_level_of_Nil: "top_level_of env req ts [] []"
  by (simp add: top_level_of_def)

lemma top_level_of_other:
  assumes "type p \<notin> ts" and "top_level_of env req ts done kps"
  shows "top_level_of env req ts (done @ [p]) kps"
proof -
  from assms(1) have "{q \<in> set (done @ [p]). type q \<in> ts} = {q \<in> set done. type q \<in> ts}"
    by auto
  with assms(2) show ?thesis
    unfolding top_level_of_def by (auto split: prod.splits)
qed

lemma top_level_of_same:
  assumes "type p \<in> ts" and "to_top_level_purl env (ident p) req (path p) = Some u"
    and "top_level_of env req ts done kps"
  shows "top_level_of env req ts (done @ [p])
     (if ident p \<in> set (map fst kps) then kps else kps @ [(ident p, u)])"
proof -
  from assms(1)
  have sets: "ident ` {q \<in> set (done @ [p]). type q \<in> ts}
      = insert (ident p) (ident ` {q \<in> set done. type q \<in> ts})"
    by auto
  from assms(3) have d: "distinct (map fst kps)"
    and s: "set (map fst kps) = ident ` {q \<in> set done. type q \<in> ts}"
    and pu: "\<And>k v. (k, v) \<in> set kps \<Longrightarrow>
        \<exists>q \<in> set done. ident q = k \<and> to_top_level_purl env k req (path q) = Some v"
    unfolding top_level_of_def by auto
  show ?thesis
  proof (cases "ident p \<in> set (map fst kps)")
    case True
    with s have "set (map fst kps) = insert (ident p) (ident ` {q \<in> set done. type q \<in> ts})"
      by auto
    with True d pu sets show ?thesis
      unfolding top_level_of_def by (simp split: prod.splits) blast
  next
    case False
    have "\<forall>(k, v) \<in> set (kps @ [(ident p, u)]).
          \<exists>q \<in> set (done @ [p]). ident q = k \<and> to_top_level_purl env k req (path q) = Some v"
      using pu assms(2) by fastforce
    with False d s sets show ?thesis
      unfolding top_level_of_def by simp
  qed
qed

lemma top_level_of_append:
  assumes "top_level_of env req ts1 pkgs kps1" and "top_level_of env req ts2 pkgs kps2"
    and "ts1 \<inter> ts2 = {}"
  shows "top_level_of env req (ts1 \<union> ts2) pkgs (kps1 @ kps2)"
proof -
  from assms(1) have d1: "distinct (map fst kps1)"
    and s1: "set (map fst kps1) = ident ` {q \<in> set pkgs. type q \<in> ts1}"
    and p1: "\<forall>(k, u) \<in> set kps1.
          \<exists>p \<in> set pkgs. ident p = k \<and> to_top_level_purl env k req (path p) = Some u"
    unfolding top_level_of_def by auto
  from assms(2) have d2: "distinct (map fst kps2)"
    and s2: "set (map fst kps2) = ident ` {q \<in> set pkgs. type q \<in> ts2}"
    and p2: "\<forall>(k, u) \<in> set kps2.
          \<exists>p \<in> set pkgs. ident p = k \<and> to_top_level_purl env k req (path p) = Some u"
    unfolding top_level_of_def by auto
  have disj: "set (map fst kps1) \<inter> set (map fst kps2) = {}"
  proof (rule ccontr)
    assume "set (map fst kps1) \<inter> set (map fst kps2) \<noteq> {}"
    then obtain k where "k \<in> set (map fst kps1) \<inter> set (map fst kps2)" by blast
    then have k1: "k \<in> ident ` {q \<in> set pkgs. type q \<in> ts1}"
      and k2: "k \<in> ident ` {q \<in> set pkgs. type q \<in> ts2}"
      using s1 s2 by blast+
    from k1 obtain q1 where "ident q1 = k" "type q1 \<in> ts1" by auto
    moreover from k2 obtain q2 where "ident q2 = k" "type q2 \<in> ts2" by auto
    ultimately have "type q1 = type q2" by (auto simp: ident_def)
    with \<open>type q1 \<in> ts1\<close> \<open>type q2 \<in> ts2\<close> assms(3) show False by auto
  qed
  have s: "set (map fst (kps1 @ kps2)) = ident ` {q \<in> set pkgs. type q \<in> ts1 \<union> ts2}"
    using s1 s2 by auto
  from p1 p2 have p: "\<forall>(k, u) \<in> set (kps1 @ kps2).
          \<exists>p \<in> set pkgs. ident p = k \<and> to_top_level_purl env k req (path p) = Some u"
    by auto
  from d1 d2 disj s p show ?thesis
    unfolding top_level_of_def by simp
qed

lemma seed_package_other_type:
  assumes "(t, M) \<in> set icm_maps" and "type p \<noteq> t"
  shows "M (snd (seed_package env p cm)) = M cm"
  using assms
  by (auto simp: icm_maps_def seed_package_def type_data_update_def split: sum.split)

lemma seed_package_same_type:
  assumes "(t, M) \<in> set icm_maps" and "type p = t" and "fst (seed_package env p cm) = None"
  shows "\<exists>u. to_top_level_purl env (ident p) (request cm) (path p) = Some u
     \<and> purls_of (M (snd (seed_package env p cm)))
       = (if ident p \<in> set (map fst (M cm)) then purls_of (M cm)
          else purls_of (M cm) @ [(ident p, u)])"
proof (cases "to_top_level_purl env (ident p) (request cm) (path p)")
  case None
  with assms have False
    by (auto simp: icm_maps_def seed_package_def codec_result_def)
  then show ?thesis ..
next
  case (Some u)
  with assms have "\<exists>n. M (snd (seed_package env p cm))
       = setdefault (ident p) (new_entry n u) (M cm)"
    by (auto simp: icm_maps_def seed_package_def codec_result_def type_data_update_def)
  then obtain n where "M (snd (seed_package env p cm))
       = setdefault (ident p) (new_entry n u) (M cm)" ..
  then have "purls_of (M (snd (seed_package env p cm)))
       = (if ident p \<in> set (map fst (M cm)) then purls_of (M cm)
          else purls_of (M cm) @ [(ident p, u)])"
    by (simp add: purls_of_setdefault new_entry_def)
  with Some show ?thesis by simp
qed

lemma seed_package_top_level:
  assumes tm: "(t, M) \<in> set icm_maps" and ok: "fst (seed_package env p cm) = None"
    and inv: "top_level_of env (request cm) {t} done (purls_of (M cm))"
  shows "top_level_of env (request cm) {t} (done @ [p])
     (purls_of (M (snd (seed_package env p cm))))"
proof (cases "type p = t")
  case False
  then have "type p \<notin> {t}" by simp
  from top_level_of_other [OF this inv] seed_package_other_type [OF tm False, of env cm]
  show ?thesis by simp
next
  case True
  from seed_package_same_type [OF tm True ok] obtain u
    where u: "to_top_level_purl env (ident p) (request cm) (path p) = Some u"
      and eq: "purls_of (M (snd (seed_package env p cm)))
       = (if ident p \<in> set (map fst (M cm)) then purls_of (M cm)
          else purls_of (M cm) @ [(ident p, u)])"
    by blast
  from True have "type p \<in> {t}" by simp
  from top_level_of_same [OF this u inv] eq show ?thesis by simp
qed

lemma seed_loop_top_level:
  assumes tm: "(t, M) \<in> set icm_maps"
  shows "fst (for_each (seed_package env) ps cm) = None \<Longrightarrow>
     top_level_of env (request cm) {t} done (purls_of (M cm)) \<Longrightarrow>
     top_level_of env (request cm) {t} (done @ ps)
       (purls_of (M (snd (for_each (seed_package env) ps cm))))"
proof (induction ps arbitrary: cm "done")
  case Nil
  then show ?case by simp
next
  case (Cons p ps)
  obtain r1 cm1 where step: "seed_package env p cm = (r1, cm1)"
    by (cases "seed_package env p cm") auto
  with Cons.prems(1) have r1: "r1 = None" by (cases r1) auto
  with step Cons.prems(1) have rest: "fst (for_each (seed_package env) ps cm1) = None" by simp
  from seed_package_frame [of env p cm] step have req: "request cm1 = request cm" by simp
  from step r1 have ok: "fst (seed_package env p cm) = None" by simp
  from seed_package_top_level [OF tm ok Cons.prems(2)] step
  have "top_level_of env (request cm) {t} (done @ [p]) (purls_of (M cm1))" by simp
  with req have "top_level_of env (request cm1) {t} (done @ [p]) (purls_of (M cm1))" by simp
  from Cons.IH [OF rest this] req step r1 show ?case by simp
qed

lemma type_data_update_purls:
  assumes "(t, M) \<in> set icm_maps" and "\<And>m. purls_of (f m) = purls_of m"
  shows "purls_of (M (type_data_update pkg_type f cm)) = purls_of (M cm)"
  using assms by (auto simp: icm_maps_def type_data_update_def)

lemma process_gomod_purls:
  assumes "(t, M) \<in> set icm_maps"
  shows "M (snd (process_gomod env ty p d cm)) = M cm"
proof -
  have "gopkg_data (snd (process_gomod env ty p d cm)) = gopkg_data cm
    \<and> npm_data (snd (process_gomod env ty p d cm)) = npm_data cm
    \<and> pip_data (snd (process_gomod env ty p d cm)) = pip_data cm
    \<and> yarn_data (snd (process_gomod env ty p d cm)) = yarn_data cm
    \<and> rubygems_data (snd (process_gomod env ty p d cm)) = rubygems_data cm
    \<and> gitsubmodule_data (snd (process_gomod env ty p d cm)) = gitsubmodule_data cm"
    by (simp add: process_gomod_def Let_def split: sum.split option.split mode.split)
  with assms show ?thesis by (auto simp: icm_maps_def)
qed

lemma process_go_package_purls:
  assumes "(t, M) \<in> set icm_maps"
  shows "purls_of (M (snd (snd (process_go_package env ty p d cm)))) = purls_of (M cm)"
proof -
  have "purls_of (gopkg_data (snd (snd (process_go_package env ty p d cm))))
      = purls_of (gopkg_data cm)
    \<and> npm_data (snd (snd (process_go_package env ty p d cm))) = npm_data cm
    \<and> pip_data (snd (snd (process_go_package env ty p d cm))) = pip_data cm
    \<and> yarn_data (snd (snd (process_go_package env ty p d cm))) = yarn_data cm
    \<and> rubygems_data (snd (snd (process_go_package env ty p d cm))) = rubygems_data cm
    \<and> gitsubmodule_data (snd (snd (process_go_package env ty p d cm))) = gitsubmodule_data cm"
    by (simp add: process_go_package_def purls_of_adjust
        split: prod.split sum.split option.split mode.split)
  with assms show ?thesis by (auto simp: icm_maps_def)
qed

lemma process_standard_package_purls:
  assumes "(t, M) \<in> set icm_maps"
  shows "purls_of (M (snd (process_standard_package env pkg_type p d cm))) = purls_of (M cm)"
proof -
  have "purls_of (adjust (ident p)
                     (\<lambda>e. if \<not> dev d
                          then e\<lparr>e_sources := e_sources e @ [x],
                                 e_dependencies := e_dependencies e @ [x]\<rparr>
                          else e\<lparr>e_sources := e_sources e @ [x]\<rparr>) m) = purls_of m" for x m
    by (rule purls_of_adjust) simp
  with assms show ?thesis
    by (simp add: process_standard_package_def type_data_update_purls
        split: sum.split option.split)
qed

lemma process_standard_package_sbom_purls:
  assumes "(t, M) \<in> set icm_maps"
  shows "M (snd (process_standard_package_sbom env d cm)) = M cm"
  using assms
  by (auto simp: icm_maps_def process_standard_package_sbom_def split: sum.split)

lemma process_npm_package_purls:
  assumes "(t, M) \<in> set icm_maps"
  shows "purls_of (M (snd (process_npm_package env ty p d cm))) = purls_of (M cm)"
  using process_standard_package_purls [OF assms] process_standard_package_sbom_purls [OF assms]
  by (simp add: process_npm_package_def split: mode.split)

lemma process_pip_package_purls:
  assumes "(t, M) \<in> set icm_maps"
  shows "purls_of (M (snd (process_pip_package env ty p d cm))) = purls_of (M cm)"
  using process_standard_package_purls [OF assms] process_standard_package_sbom_purls [OF assms]
  by (simp add: process_pip_package_def split: mode.split)

lemma process_yarn_package_purls:
  assumes "(t, M) \<in> set icm_maps"
  shows "purls_of (M (snd (process_yarn_package env ty p d cm))) = purls_of (M cm)"
  using process_standard_package_purls [OF assms] process_standard_package_sbom_purls [OF assms]
  by (simp add: process_yarn_package_def split: mode.split)

lemma process_rubygems_package_purls:
  assumes "(t, M) \<in> set icm_maps"
  shows "purls_of (M (snd (process_rubygems_package env ty p d cm))) = purls_of (M cm)"
proof -
  have "gopkg_data (snd (process_rubygems_package env ty p d cm)) = gopkg_data cm
    \<and> npm_data (snd (process_rubygems_package env ty p d cm)) = npm_data cm
    \<and> pip_data (snd (process_rubygems_package env ty p d cm)) = pip_data cm
    \<and> yarn_data (snd (process_rubygems_package env ty p d cm)) = yarn_data cm
    \<and> purls_of (rubygems_data (snd (process_rubygems_package env ty p d cm)))
      = purls_of (rubygems_data cm)
    \<and> gitsubmodule_data (snd (process_rubygems_package env ty p d cm)) = gitsubmodule_data cm"
    by (simp add: process_rubygems_package_def Let_def purls_of_adjust
        split: sum.split option.split mode.split)
  with assms show ?thesis by (auto simp: icm_maps_def)
qed

lemma process_dependency_purls:
  assumes "(t, M) \<in> set icm_maps"
  shows "purls_of (M (snd (snd (process_dependency env ty p d cm)))) = purls_of (M cm)"
  using process_go_package_purls [OF assms] process_gomod_purls [OF assms]
    process_npm_package_purls [OF assms] process_pip_package_purls [OF assms]
    process_yarn_package_purls [OF assms] process_rubygems_package_purls [OF assms]
  by (simp add: process_dependency_def case_prod_beta)

lemma process_dependencies_purls:
  assumes "(t, M) \<in> set icm_maps"
  shows "purls_of (M (snd (snd (process_dependencies env ty p ds cm)))) = purls_of (M cm)"
proof (induction ds arbitrary: cm)
  case Nil
  show ?case by simp
next
  case (Cons d ds)
  obtain r1 d1 cm1 where step: "process_dependency env ty p d cm = (r1, d1, cm1)"
    by (cases "process_dependency env ty p d cm") auto
  with process_dependency_purls [OF assms, of env ty p d cm]
  have here: "purls_of (M cm1) = purls_of (M cm)" by simp
  show ?case
  proof (cases r1)
    case (Some e)
    with step here show ?thesis by simp
  next
    case None
    with step here Cons.IH [of cm1] show ?thesis by (simp add: case_prod_beta)
  qed
qed

lemma process_packages_purls:
  assumes "(t, M) \<in> set icm_maps"
  shows "purls_of (M (snd (snd (process_packages env ty ps cm)))) = purls_of (M cm)"
proof (induction ps arbitrary: cm)
  case Nil
  show ?case by simp
next
  case (Cons p ps)
  obtain r1 ds1 cm1 where step:
    "process_dependencies env ty p (dependencies p) cm = (r1, ds1, cm1)"
    by (cases "process_dependencies env ty p (dependencies p) cm") auto
  with process_dependencies_purls [OF assms, of env ty p "dependencies p" cm]
  have here: "purls_of (M cm1) = purls_of (M cm)" by simp
  show ?case
  proof (cases r1)
    case (Some e)
    with step here show ?thesis by simp
  next
    case None
    with step here Cons.IH [of cm1] show ?thesis by (simp add: case_prod_beta)
  qed
qed

lemma set_sources_loop_purls:
  "fst (set_sources_loop gomods items) = None \<Longrightarrow>
   purls_of (fst (snd (set_sources_loop gomods items))) = purls_of items"
proof (induction items)
  case Nil
  show ?case by simp
next
  case (Cons item items)
  obtain k e where item: "item = (k, e)" by (cases item)
  from Cons.prems item obtain n where n: "e_name e = Some n"
    by (cases "e_name e") auto
  show ?case
  proof (cases "go_module_name gomods n")
    case None
    with Cons item n show ?thesis
      by (simp add: set_sources_loop_Cons purls_of_def case_prod_beta
          del: set_sources_loop.simps)
  next
    case (Some mn)
    then obtain module where "map_of gomods mn = Some module"
      using go_module_name_member by blast
    with Some Cons item n show ?thesis
      by (simp add: set_sources_loop_Cons purls_of_def case_prod_beta
          del: set_sources_loop.simps)
  qed
qed

lemma set_go_package_sources_purls:
  assumes "(t, M) \<in> set icm_maps" and "fst (set_go_package_sources cm) = None"
  shows "purls_of (M (snd (set_go_package_sources cm))) = purls_of (M cm)"
proof -
  from assms(2) have "fst (set_sources_loop (gomod_data cm) (gopkg_data cm)) = None"
    by (simp add: set_go_package_sources_def case_prod_beta)
  from set_sources_loop_purls [OF this] assms(1) show ?thesis
    by (auto simp: icm_maps_def set_go_package_sources_def case_prod_beta)
qed

lemma purls_of_append: "purls_of (a @ b) = purls_of a @ purls_of b"
  by (simp add: purls_of_def)

lemma purls_of_snd: "map snd (purls_of m) = map e_purl (map snd m)"
  by (induction m) (auto simp: purls_of_def)

lemma generate_icm_metadata:
  "metadata (generate_icm c)
   = \<lparr>icm_version = 1, icm_spec = JSON_SCHEMA_URL, image_layer_index = - 1\<rparr>"
  by (simp add: generate_icm_def deep_sort_icm_def BASE_ICM_def VERSION_def
      UNKNOWN_LAYER_INDEX_def)

lemma generate_icm_purls:
  "mset (map e_purl (image_contents (generate_icm (Some xs)))) = mset (map e_purl xs)"
proof -
  have "image_contents (generate_icm (Some xs))
      = sort_key (\<lambda>e. (entry_keys e, entry_values e)) (map deep_sort_entry xs)"
    by (simp add: generate_icm_def deep_sort_icm_def BASE_ICM_def)
  then have "mset (map e_purl (image_contents (generate_icm (Some xs))))
      = image_mset e_purl (mset (map deep_sort_entry xs))"
    by simp
  also have "\<dots> = mset (map e_purl xs)"
    by (simp add: multiset.map_comp comp_def deep_sort_entry_def)
  finally show ?thesis .
qed

lemma to_json_empty:
  "packages cm = [] \<Longrightarrow>
   fst (to_json env cm)
   = Inr \<lparr>metadata = \<lparr>icm_version = 1, icm_spec = JSON_SCHEMA_URL, image_layer_index = - 1\<rparr>,
          image_contents = []\<rparr>"
  by (simp add: to_json_def set_go_package_sources_def generate_icm_def deep_sort_icm_def
      BASE_ICM_def VERSION_def UNKNOWN_LAYER_INDEX_def)

lemma to_json_Inr:
  assumes "fst (to_json env cm) = Inr doc"
  obtains cm1 ps cm2 cm3 where
    "for_each (seed_package env) (packages cm)
       (cm\<lparr>gopkg_data := [], gomod_data := [], npm_data := [], pip_data := [],
            yarn_data := [], rubygems_data := [], gitsubmodule_data := []\<rparr>) = (None, cm1)"
    and "process_packages env Icm (packages cm) cm1 = (None, ps, cm2)"
    and "set_go_package_sources (cm2\<lparr>packages := ps\<rparr>) = (None, cm3)"
    and "doc = generate_icm (Some (map snd (gopkg_data cm3) @ map snd (npm_data cm3)
              @ map snd (pip_data cm3) @ map snd (yarn_data cm3)
              @ map snd (rubygems_data cm3) @ map snd (gitsubmodule_data cm3)))"
proof -
  let ?cm0 = "cm\<lparr>gopkg_data := [], gomod_data := [], npm_data := [], pip_data := [],
            yarn_data := [], rubygems_data := [], gitsubmodule_data := []\<rparr>"
  obtain r1 cm1 where seed: "for_each (seed_package env) (packages cm) ?cm0 = (r1, cm1)"
    by (cases "for_each (seed_package env) (packages cm) ?cm0") auto
  with assms have r1: "r1 = None" by (cases r1) (simp_all add: to_json_def)
  from for_each_frame [of "seed_package env" "packages cm" ?cm0, OF seed_package_frame] seed
  have f1: "packages cm1 = packages cm" by simp
  obtain r2 ps cm2 where pass: "process_packages env Icm (packages cm) cm1 = (r2, ps, cm2)"
    by (cases "process_packages env Icm (packages cm) cm1") auto
  with assms seed r1 f1 have r2: "r2 = None" by (cases r2) (simp_all add: to_json_def)
  obtain r3 cm3 where fin: "set_go_package_sources (cm2\<lparr>packages := ps\<rparr>) = (r3, cm3)"
    by (cases "set_go_package_sources (cm2\<lparr>packages := ps\<rparr>)") auto
  with assms seed r1 f1 pass r2 have r3: "r3 = None"
    by (cases r3) (simp_all add: to_json_def)
  from assms seed r1 f1 pass r2 fin r3
  have "doc = generate_icm (Some (map snd (gopkg_data cm3) @ map snd (npm_data cm3)
              @ map snd (pip_data cm3) @ map snd (yarn_data cm3)
              @ map snd (rubygems_data cm3) @ map snd (gitsubmodule_data cm3)))"
    by (simp add: to_json_def Let_def)
  with seed r1 pass r2 fin r3 that show ?thesis by blast
qed

lemma to_json_top_level:
  assumes "fst (to_json env cm) = Inr doc"
  shows "\<exists>kps. top_level_of env (request cm)
        (set [''go-package'', ''npm'', ''pip'', ''yarn'', ''rubygems'', ''git-submodule''])
        (packages cm) kps
     \<and> mset (map e_purl (image_contents doc)) = mset (map snd kps)"
proof -
  let ?cm0 = "cm\<lparr>gopkg_data := [], gomod_data := [], npm_data := [], pip_data := [],
            yarn_data := [], rubygems_data := [], gitsubmodule_data := []\<rparr>"
  from to_json_Inr [OF assms] obtain cm1 ps cm2 cm3 where
    seed: "for_each (seed_package env) (packages cm) ?cm0 = (None, cm1)"
    and pass: "process_packages env Icm (packages cm) cm1 = (None, ps, cm2)"
    and fin: "set_go_package_sources (cm2\<lparr>packages := ps\<rparr>) = (None, cm3)"
    and doc: "doc = generate_icm (Some (map snd (gopkg_data cm3) @ map snd (npm_data cm3)
              @ map snd (pip_data cm3) @ map snd (yarn_data cm3)
              @ map snd (rubygems_data cm3) @ map snd (gitsubmodule_data cm3)))"
    by blast
  have each: "top_level_of env (request cm) {t} (packages cm) (purls_of (M cm3))"
    if tm: "(t, M) \<in> set icm_maps" for t M
  proof -
    from tm have "M ?cm0 = []" by (auto simp: icm_maps_def)
    then have init: "top_level_of env (request ?cm0) {t} [] (purls_of (M ?cm0))"
      by (simp add: top_level_of_Nil purls_of_def)
    from seed have ok: "fst (for_each (seed_package env) (packages cm) ?cm0) = None" by simp
    from seed_loop_top_level [OF tm ok init] seed
    have a: "top_level_of env (request cm) {t} (packages cm) (purls_of (M cm1))" by simp
    from process_packages_purls [OF tm, of env Icm "packages cm" cm1] pass
    have b: "purls_of (M cm2) = purls_of (M cm1)" by simp
    from tm have c: "M (cm2\<lparr>packages := ps\<rparr>) = M cm2" by (auto simp: icm_maps_def)
    from set_go_package_sources_purls [OF tm, of "cm2\<lparr>packages := ps\<rparr>"] fin c
    have "purls_of (M cm3) = purls_of (M cm2)" by simp
    with a b show ?thesis by simp
  qed
  let ?tops = "gopkg_data cm3 @ npm_data cm3 @ pip_data cm3 @ yarn_data cm3
      @ rubygems_data cm3 @ gitsubmodule_data cm3"
  have g: "top_level_of env (request cm) {''go-package''} (packages cm)
      (purls_of (gopkg_data cm3))"
    and n: "top_level_of env (request cm) {''npm''} (packages cm) (purls_of (npm_data cm3))"
    and p: "top_level_of env (request cm) {''pip''} (packages cm) (purls_of (pip_data cm3))"
    and y: "top_level_of env (request cm) {''yarn''} (packages cm) (purls_of (yarn_data cm3))"
    and r: "top_level_of env (request cm) {''rubygems''} (packages cm)
      (purls_of (rubygems_data cm3))"
    and s: "top_level_of env (request cm) {''git-submodule''} (packages cm)
      (purls_of (gitsubmodule_data cm3))"
    using each by (simp_all add: icm_maps_def)
  from top_level_of_append [OF r s] have rs: "top_level_of env (request cm)
      ({''rubygems''} \<union> {''git-submodule''}) (packages cm)
      (purls_of (rubygems_data cm3) @ purls_of (gitsubmodule_data cm3))" by simp
  from top_level_of_append [OF y rs] have yrs: "top_level_of env (request cm)
      ({''yarn''} \<union> ({''rubygems''} \<union> {''git-submodule''})) (packages cm)
      (purls_of (yarn_data cm3) @ purls_of (rubygems_data cm3)
       @ purls_of (gitsubmodule_data cm3))" by simp
  from top_level_of_append [OF p yrs] have pyrs: "top_level_of env (request cm)
      ({''pip''} \<union> ({''yarn''} \<union> ({''rubygems''} \<union> {''git-submodule''}))) (packages cm)
      (purls_of (pip_data cm3) @ purls_of (yarn_data cm3) @ purls_of (rubygems_data cm3)
       @ purls_of (gitsubmodule_data cm3))" by simp
  from top_level_of_append [OF n pyrs] have npyrs: "top_level_of env (request cm)
      ({''npm''} \<union> ({''pip''} \<union> ({''yarn''} \<union> ({''rubygems''} \<union> {''git-submodule''}))))
      (packages cm)
      (purls_of (npm_data cm3) @ purls_of (pip_data cm3) @ purls_of (yarn_data cm3)
       @ purls_of (rubygems_data cm3) @ purls_of (gitsubmodule_data cm3))" by simp
  from top_level_of_append [OF g npyrs] have all: "top_level_of env (request cm)
      ({''go-package''} \<union> ({''npm''} \<union> ({''pip''} \<union> ({''yarn''}
         \<union> ({''rubygems''} \<union> {''git-submodule''})))))
      (packages cm)
      (purls_of (gopkg_data cm3) @ purls_of (npm_data cm3) @ purls_of (pip_data cm3)
       @ purls_of (yarn_data cm3) @ purls_of (rubygems_data cm3)
       @ purls_of (gitsubmodule_data cm3))" by simp
  have ts: "{''go-package''} \<union> ({''npm''} \<union> ({''pip''} \<union> ({''yarn''}
         \<union> ({''rubygems''} \<union> {''git-submodule''}))))
      = set [''go-package'', ''npm'', ''pip'', ''yarn'', ''rubygems'', ''git-submodule'']"
    by auto
  from all have tl: "top_level_of env (request cm)
      (set [''go-package'', ''npm'', ''pip'', ''yarn'', ''rubygems'', ''git-submodule''])
      (packages cm) (purls_of ?tops)"
    unfolding ts by (simp add: purls_of_append)
  from doc have "mset (map e_purl (image_contents doc)) = mset (map e_purl (map snd ?tops))"
    using generate_icm_purls [of "map snd ?tops"] by simp
  then have "mset (map e_purl (image_contents doc)) = mset (map snd (purls_of ?tops))"
    by (simp only: purls_of_snd)
  with tl show ?thesis by blast
qed

lemma to_json_metadata:
  assumes "fst (to_json env cm) = Inr doc"
  shows "metadata doc
     = \<lparr>icm_version = 1, icm_spec = JSON_SCHEMA_URL, image_layer_index = - 1\<rparr>"
proof -
  from to_json_Inr [OF assms] obtain cm1 ps cm2 cm3 where
    "for_each (seed_package env) (packages cm)
       (cm\<lparr>gopkg_data := [], gomod_data := [], npm_data := [], pip_data := [],
            yarn_data := [], rubygems_data := [], gitsubmodule_data := []\<rparr>) = (None, cm1)"
    and "process_packages env Icm (packages cm) cm1 = (None, ps, cm2)"
    and "set_go_package_sources (cm2\<lparr>packages := ps\<rparr>) = (None, cm3)"
    and doc: "doc = generate_icm (Some (map snd (gopkg_data cm3) @ map snd (npm_data cm3)
              @ map snd (pip_data cm3) @ map snd (yarn_data cm3)
              @ map snd (rubygems_data cm3) @ map snd (gitsubmodule_data cm3)))"
    by blast
  show ?thesis unfolding doc by (rule generate_icm_metadata)
qed

text \<open>
  C1, as the claim states it, fails: \<open>to_json\<close> does not return a document for every
  package list. For a go-package outside every module whose dependency has a local
  version and a name outside every module, it raises the \<open>RuntimeError\<close> of line 179.
\<close>

theorem to_json_returns_counterexample:
  "fst (to_json spec_env (ContentManifest example_request stray_local_packages))
     = Inl (RuntimeError_no_parent_module ''x/p'')"
  by code_simp

text \<open>
  C1, amended. Whenever \<open>to_json\<close> returns a document, its metadata is
  \<open>icm_version = 1\<close>, the fixed schema URL and \<open>image_layer_index = -1\<close>, and
  \<open>image_contents\<close> has exactly one entry for each distinct identity among the packages
  of type go-package, npm, pip, yarn, rubygems or git-submodule, with the top-level purl
  of a package of that identity; gomod packages and packages of any other type give no
  entry. For the empty package list \<open>to_json\<close> always returns, and the document has
  \<open>image_contents = []\<close>.
\<close>

theorem to_json_metadata_and_image_contents:
  "(fst (to_json env cm) = Inr doc \<longrightarrow>
      metadata doc
        = \<lparr>icm_version = 1, icm_spec = JSON_SCHEMA_URL, image_layer_index = - 1\<rparr>
      \<and> length (image_contents doc)
        = card (ident ` {p \<in> set (packages cm).
             type p \<in> set [''go-package'', ''npm'', ''pip'', ''yarn'', ''rubygems'',
                            ''git-submodule'']})
      \<and> (\<exists>kps. distinct (map fst kps)
            \<and> set (map fst kps)
              = ident ` {p \<in> set (packages cm).
                  type p \<in> set [''go-package'', ''npm'', ''pip'', ''yarn'', ''rubygems'',
                                 ''git-submodule'']}
            \<and> (\<forall>(k, u) \<in> set kps.
                 \<exists>p \<in> set (packages cm). ident p = k
                    \<and> to_top_level_purl env k (request cm) (path p) = Some u)
            \<and> mset (map e_purl (image_contents doc)) = mset (map snd kps)))
   \<and> (packages cm = [] \<longrightarrow>
        fst (to_json env cm)
        = Inr \<lparr>metadata =
                 \<lparr>icm_version = 1, icm_spec = JSON_SCHEMA_URL, image_layer_index = - 1\<rparr>,
               image_contents = []\<rparr>)"
proof -
  have A: "metadata doc
        = \<lparr>icm_version = 1, icm_spec = JSON_SCHEMA_URL, image_layer_index = - 1\<rparr>
      \<and> length (image_contents doc)
        = card (ident ` {p \<in> set (packages cm).
             type p \<in> set [''go-package'', ''npm'', ''pip'', ''yarn'', ''rubygems'',
                            ''git-submodule'']})
      \<and> (\<exists>kps. distinct (map fst kps)
            \<and> set (map fst kps)
              = ident ` {p \<in> set (packages cm).
                  type p \<in> set [''go-package'', ''npm'', ''pip'', ''yarn'', ''rubygems'',
                                 ''git-submodule'']}
            \<and> (\<forall>(k, u) \<in> set kps.
                 \<exists>p \<in> set (packages cm). ident p = k
                    \<and> to_top_level_purl env k (request cm) (path p) = Some u)
            \<and> mset (map e_purl (image_contents doc)) = mset (map snd kps))"
    if ok: "fst (to_json env cm) = Inr doc"
  proof -
    from ok have m: "metadata doc
        = \<lparr>icm_version = 1, icm_spec = JSON_SCHEMA_URL, image_layer_index = - 1\<rparr>"
      by (rule to_json_metadata)
    from to_json_top_level [OF ok] obtain kps where
      tl: "top_level_of env (request cm)
        (set [''go-package'', ''npm'', ''pip'', ''yarn'', ''rubygems'', ''git-submodule''])
        (packages cm) kps"
      and ms: "mset (map e_purl (image_contents doc)) = mset (map snd kps)"
      by (elim exE conjE)
    from tl have all: "distinct (map fst kps)
      \<and> set (map fst kps)
              = ident ` {p \<in> set (packages cm).
                  type p \<in> set [''go-package'', ''npm'', ''pip'', ''yarn'', ''rubygems'',
                                 ''git-submodule'']}
      \<and> (\<forall>(k, u) \<in> set kps.
                 \<exists>p \<in> set (packages cm). ident p = k
                    \<and> to_top_level_purl env k (request cm) (path p) = Some u)"
      unfolding top_level_of_def .
    from all have d: "distinct (map fst kps)" by (rule conjunct1)
    from all have s: "set (map fst kps)
              = ident ` {p \<in> set (packages cm).
                  type p \<in> set [''go-package'', ''npm'', ''pip'', ''yarn'', ''rubygems'',
                                 ''git-submodule'']}"
      by (rule conjunct1 [OF conjunct2])
    from all have pu: "\<forall>(k, u) \<in> set kps.
                 \<exists>p \<in> set (packages cm). ident p = k
                    \<and> to_top_level_purl env k (request cm) (path p) = Some u"
      by (rule conjunct2 [OF conjunct2])
    from ms have "size (mset (map e_purl (image_contents doc))) = size (mset (map snd kps))"
      by (rule arg_cong)
    then have "length (image_contents doc) = length (map fst kps)"
      by (simp only: size_mset length_map)
    also from d have "\<dots> = card (set (map fst kps))" by (rule distinct_card [symmetric])
    finally have len: "length (image_contents doc)
        = card (ident ` {p \<in> set (packages cm).
             type p \<in> set [''go-package'', ''npm'', ''pip'', ''yarn'', ''rubygems'',
                            ''git-submodule'']})"
      unfolding s .
    from d s pu ms have ex: "\<exists>kps. distinct (map fst kps)
            \<and> set (map fst kps)
              = ident ` {p \<in> set (packages cm).
                  type p \<in> set [''go-package'', ''npm'', ''pip'', ''yarn'', ''rubygems'',
                                 ''git-submodule'']}
            \<and> (\<forall>(k, u) \<in> set kps.
                 \<exists>p \<in> set (packages cm). ident p = k
                    \<and> to_top_level_purl env k (request cm) (path p) = Some u)
            \<and> mset (map e_purl (image_contents doc)) = mset (map snd kps)"
      by (intro exI [of _ kps] conjI)
    from m len ex show ?thesis by (intro conjI)
  qed
  have A': "fst (to_json env cm) = Inr doc \<longrightarrow>
      metadata doc
        = \<lparr>icm_version = 1, icm_spec = JSON_SCHEMA_URL, image_layer_index = - 1\<rparr>
      \<and> length (image_contents doc)
        = card (ident ` {p \<in> set (packages cm).
             type p \<in> set [''go-package'', ''npm'', ''pip'', ''yarn'', ''rubygems'',
                            ''git-submodule'']})
      \<and> (\<exists>kps. distinct (map fst kps)
            \<and> set (map fst kps)
              = ident ` {p \<in> set (packages cm).
                  type p \<in> set [''go-package'', ''npm'', ''pip'', ''yarn'', ''rubygems'',
                                 ''git-submodule'']}
            \<and> (\<forall>(k, u) \<in> set kps.
                 \<exists>p \<in> set (packages cm). ident p = k
                    \<and> to_top_level_purl env k (request cm) (path p) = Some u)
            \<and> mset (map e_purl (image_contents doc)) = mset (map snd kps))"
    by (rule impI) (rule A)
  have B: "packages cm = [] \<longrightarrow>
        fst (to_json env cm)
        = Inr \<lparr>metadata =
                 \<lparr>icm_version = 1, icm_spec = JSON_SCHEMA_URL, image_layer_index = - 1\<rparr>,
               image_contents = []\<rparr>"
    by (rule impI) (rule to_json_empty)
  from A' B show ?thesis by (rule conjI)
qed

theorem to_json_metadata_and_image_contents_witness:
  "fst (to_json spec_env (ContentManifest example_request mixed_packages))
     = Inr \<lparr>metadata =
              \<lparr>icm_version = 1, icm_spec = JSON_SCHEMA_URL, image_layer_index = - 1\<rparr>,
            image_contents =
              [\<lparr>e_name = None, e_purl = ''pkg:github/o/r@abc'', e_dependencies = [],
                  e_sources = [''pkg:npm/b@2.0'']\<rparr>,
               \<lparr>e_name = None, e_purl = ''pkg:golang/m%2Fp@v1'', e_dependencies = [],
                  e_sources = []\<rparr>]\<rparr>
   \<and> card (ident ` {p \<in> set (packages (ContentManifest example_request mixed_packages)).
          type p \<in> set [''go-package'', ''npm'', ''pip'', ''yarn'', ''rubygems'',
                         ''git-submodule'']}) = 2
   \<and> length mixed_packages = 5
   \<and> fst (to_json spec_env (ContentManifest example_request []))
     = Inr \<lparr>metadata =
              \<lparr>icm_version = 1, icm_spec = JSON_SCHEMA_URL, image_layer_index = - 1\<rparr>,
            image_contents = []\<rparr>"
proof -
  let ?doc = "\<lparr>metadata =
              \<lparr>icm_version = 1, icm_spec = JSON_SCHEMA_URL, image_layer_index = - 1\<rparr>,
            image_contents =
              [\<lparr>e_name = None, e_purl = ''pkg:github/o/r@abc'', e_dependencies = [],
                  e_sources = [''pkg:npm/b@2.0'']\<rparr>,
               \<lparr>e_name = None, e_purl = ''pkg:golang/m%2Fp@v1'', e_dependencies = [],
                  e_sources = []\<rparr>]\<rparr>"
  have h: "fst (to_json spec_env (ContentManifest example_request mixed_packages)) = Inr ?doc"
    by code_simp
  have n: "length mixed_packages = 5"
    by (simp add: mixed_packages_def)
  have e: "packages (ContentManifest example_request []) = []"
    by (simp add: ContentManifest_def)
  note t = to_json_metadata_and_image_contents
    [of spec_env "ContentManifest example_request mixed_packages" ?doc]
  from mp [OF conjunct1 [OF t] h]
  have "length (image_contents ?doc)
      = card (ident ` {p \<in> set (packages (ContentManifest example_request mixed_packages)).
          type p \<in> set [''go-package'', ''npm'', ''pip'', ''yarn'', ''rubygems'',
                         ''git-submodule'']})"
    by (rule conjunct1 [OF conjunct2])
  then have c: "card (ident ` {p \<in> set (packages (ContentManifest example_request mixed_packages)).
          type p \<in> set [''go-package'', ''npm'', ''pip'', ''yarn'', ''rubygems'',
                         ''git-submodule'']}) = 2"
    by (simp only: icm.simps list.size)
  from mp [OF conjunct2
      [OF to_json_metadata_and_image_contents
         [of spec_env "ContentManifest example_request []" ?doc]] e]
  have z: "fst (to_json spec_env (ContentManifest example_request []))
     = Inr \<lparr>metadata =
              \<lparr>icm_version = 1, icm_spec = JSON_SCHEMA_URL, image_layer_index = - 1\<rparr>,
            image_contents = []\<rparr>" .
  from h c n z show ?thesis by (intro conjI)
qed

section \<open>The errors of a local dependency of a Go package\<close>

lemma codec_result_not_own_error:
  "codec_result r \<noteq> Inl (RuntimeError_no_parent_module s)"
  "codec_result r \<noteq> Inl (ValueError_invalid_local_version k)"
  by (cases r; simp add: codec_result_def)+

lemma get_local_runtime_error:
  "(\<exists>s. fst (get_local_go_package_dep_purl env cm package dependency)
          = Inl (RuntimeError_no_parent_module s)) \<longleftrightarrow>
     is_local (version dependency)
     \<and> match_parent_module (name dependency) (map fst (go_modules_by_name cm)) = None
     \<and> (match_parent_module (name package) (map fst (go_modules_by_name cm)) = None
        \<or> (\<exists>pm v. match_parent_module (name package) (map fst (go_modules_by_name cm))
                     = Some pm
              \<and> version dependency = Some v
              \<and> match_parent_module (normpath_join env pm v)
                   (map fst (go_modules_by_name cm)) = None))"
proof (cases "is_local (version dependency)")
  case False
  with get_local_not_local [OF False, of env cm package] show ?thesis by simp
next
  case True
  then obtain v where v: "version dependency = Some v"
    using is_local_version by blast
  let ?names = "map fst (go_modules_by_name cm)"
  show ?thesis
  proof (cases "match_parent_module (name dependency) ?names")
    case (Some m)
    from get_local_in_module [OF True Some, of env package]
    have "fst (get_local_go_package_dep_purl env cm package dependency)
         \<noteq> Inl (RuntimeError_no_parent_module s)" for s
      by (simp add: codec_result_not_own_error)
    with Some show ?thesis by simp
  next
    case None
    show ?thesis
    proof (cases "match_parent_module (name package) ?names")
      case None2: None
      with True None get_local_no_package_module [OF True None None2, of env]
      show ?thesis by simp
    next
      case (Some pm)
      note pm = this
      show ?thesis
      proof (cases "match_parent_module (normpath_join env pm v) ?names")
        case None3: None
        with True None pm v get_local_no_path_module [OF True v None pm None3]
        show ?thesis by simp
      next
        case (Some dm)
        from get_local_path_module [OF True v None pm Some]
        have "fst (get_local_go_package_dep_purl env cm package dependency)
         \<noteq> Inl (RuntimeError_no_parent_module s)" for s
          by (simp split: option.split)
        with True None v pm Some show ?thesis by simp
      qed
    qed
  qed
qed

lemma get_local_value_error:
  "(\<exists>k. fst (get_local_go_package_dep_purl env cm package dependency)
          = Inl (ValueError_invalid_local_version k)) \<longleftrightarrow> \<not> is_local (version dependency)"
proof (cases "is_local (version dependency)")
  case False
  with get_local_not_local [OF False, of env cm package] show ?thesis by blast
next
  case True
  then obtain v where v: "version dependency = Some v"
    using is_local_version by blast
  let ?names = "map fst (go_modules_by_name cm)"
  have "fst (get_local_go_package_dep_purl env cm package dependency)
         \<noteq> Inl (ValueError_invalid_local_version k)" for k
  proof (cases "match_parent_module (name dependency) ?names")
    case (Some m)
    from get_local_in_module [OF True Some, of env package] show ?thesis
      by (simp add: codec_result_not_own_error)
  next
    case None
    show ?thesis
    proof (cases "match_parent_module (name package) ?names")
      case None2: None
      with get_local_no_package_module [OF True None None2, of env] show ?thesis by simp
    next
      case (Some pm)
      note pm = this
      show ?thesis
      proof (cases "match_parent_module (normpath_join env pm v) ?names")
        case None3: None
        with get_local_no_path_module [OF True v None pm None3] show ?thesis by simp
      next
        case (Some dm)
        from get_local_path_module [OF True v None pm Some] show ?thesis
          by (simp split: option.split)
      qed
    qed
  qed
  with True show ?thesis by simp
qed

text \<open>
  C7, amended. \<open>_get_local_go_package_dep_purl\<close> raises the \<open>ValueError\<close> of line 165
  exactly when the version of the dependency is absent or does not start with \<open>"."\<close>.
  Otherwise, when the name of the dependency matches a known module, it raises neither
  of its own errors: the result is what \<open>to_purl\<close> gives for the dependency with the
  version of that module, a purl or the error of \<open>to_purl\<close>. It raises \<open>RuntimeError\<close>
  exactly when the version is local, the name of the dependency matches no known
  module, and the name of the package matches no known module (the error names the
  package) or the path computed from the module of the package and the version of the
  dependency matches no known module (the error names the path). In the one remaining
  case it raises the \<open>ValueError\<close> of \<open>Path.relative_to\<close> when the path is not
  under its module, else the \<open>KeyError\<close> of the lookup when \<open>_gomod_data\<close> does not
  hold that module, else the error of \<open>to_purl\<close>, and else returns the purl of
  \<open>to_purl\<close> with the placeholder replaced by the purl of the module.
\<close>

theorem get_local_go_package_dep_purl_raises:
  "((\<exists>k. fst (get_local_go_package_dep_purl env cm package dependency)
          = Inl (ValueError_invalid_local_version k)) \<longleftrightarrow> \<not> is_local (version dependency))
   \<and> (\<not> is_local (version dependency) \<longrightarrow>
        fst (get_local_go_package_dep_purl env cm package dependency)
          = Inl (ValueError_invalid_local_version (ident dependency)))
   \<and> (is_local (version dependency)
        \<and> match_parent_module (name dependency) (map fst (go_modules_by_name cm)) \<noteq> None \<longrightarrow>
        fst (get_local_go_package_dep_purl env cm package dependency)
          = (case to_purl env (ident (relinked (packages cm) dependency)) None of
               None \<Rightarrow> Inl ContentManifestError
             | Some dep_purl \<Rightarrow> Inr dep_purl))
   \<and> ((\<exists>s. fst (get_local_go_package_dep_purl env cm package dependency)
          = Inl (RuntimeError_no_parent_module s)) \<longleftrightarrow>
        is_local (version dependency)
        \<and> match_parent_module (name dependency) (map fst (go_modules_by_name cm)) = None
        \<and> (match_parent_module (name package) (map fst (go_modules_by_name cm)) = None
           \<or> (\<exists>pm v. match_parent_module (name package) (map fst (go_modules_by_name cm))
                        = Some pm
                 \<and> version dependency = Some v
                 \<and> match_parent_module (normpath_join env pm v)
                      (map fst (go_modules_by_name cm)) = None)))
   \<and> (is_local (version dependency)
        \<and> match_parent_module (name dependency) (map fst (go_modules_by_name cm)) = None
        \<and> match_parent_module (name package) (map fst (go_modules_by_name cm)) = None \<longrightarrow>
        fst (get_local_go_package_dep_purl env cm package dependency)
          = Inl (RuntimeError_no_parent_module (name package)))
   \<and> (is_local (version dependency) \<and> version dependency = Some v
        \<and> match_parent_module (name dependency) (map fst (go_modules_by_name cm)) = None
        \<and> match_parent_module (name package) (map fst (go_modules_by_name cm)) = Some pm
        \<and> match_parent_module (normpath_join env pm v) (map fst (go_modules_by_name cm))
           = None \<longrightarrow>
        fst (get_local_go_package_dep_purl env cm package dependency)
          = Inl (RuntimeError_no_parent_module (normpath_join env pm v)))
   \<and> (is_local (version dependency) \<and> version dependency = Some v
        \<and> match_parent_module (name dependency) (map fst (go_modules_by_name cm)) = None
        \<and> match_parent_module (name package) (map fst (go_modules_by_name cm)) = Some pm
        \<and> match_parent_module (normpath_join env pm v) (map fst (go_modules_by_name cm))
           = Some dm \<longrightarrow>
        fst (get_local_go_package_dep_purl env cm package dependency)
          = (case relative_to env (normpath_join env pm v) dm of
               None \<Rightarrow> Inl (ValueError_not_relative (normpath_join env pm v) dm)
             | Some rel \<Rightarrow>
                 (case map_of (gomod_data cm) dm of
                    None \<Rightarrow> Inl (KeyError_module (Some dm))
                  | Some parent \<Rightarrow>
                      (case to_purl env (ident dependency) (Some rel) of
                         None \<Rightarrow> Inl ContentManifestError
                       | Some dep_purl \<Rightarrow>
                           Inr (replace_parent_purl_placeholder env dep_purl
                                  (m_purl parent))))))"
proof (intro conjI impI)
  show "(\<exists>k. fst (get_local_go_package_dep_purl env cm package dependency)
          = Inl (ValueError_invalid_local_version k)) \<longleftrightarrow> \<not> is_local (version dependency)"
    by (rule get_local_value_error)
next
  assume "\<not> is_local (version dependency)"
  then show "fst (get_local_go_package_dep_purl env cm package dependency)
          = Inl (ValueError_invalid_local_version (ident dependency))"
    by (rule get_local_not_local)
next
  assume a: "is_local (version dependency)
        \<and> match_parent_module (name dependency) (map fst (go_modules_by_name cm)) \<noteq> None"
  then obtain m where
    "match_parent_module (name dependency) (map fst (go_modules_by_name cm)) = Some m"
    by auto
  from get_local_in_module [OF conjunct1 [OF a] this, of env package]
  show "fst (get_local_go_package_dep_purl env cm package dependency)
          = (case to_purl env (ident (relinked (packages cm) dependency)) None of
               None \<Rightarrow> Inl ContentManifestError
             | Some dep_purl \<Rightarrow> Inr dep_purl)"
    by (simp add: codec_result_def)
next
  show "(\<exists>s. fst (get_local_go_package_dep_purl env cm package dependency)
          = Inl (RuntimeError_no_parent_module s)) \<longleftrightarrow>
        is_local (version dependency)
        \<and> match_parent_module (name dependency) (map fst (go_modules_by_name cm)) = None
        \<and> (match_parent_module (name package) (map fst (go_modules_by_name cm)) = None
           \<or> (\<exists>pm v. match_parent_module (name package) (map fst (go_modules_by_name cm))
                        = Some pm
                 \<and> version dependency = Some v
                 \<and> match_parent_module (normpath_join env pm v)
                      (map fst (go_modules_by_name cm)) = None))"
    by (rule get_local_runtime_error)
next
  assume "is_local (version dependency)
        \<and> match_parent_module (name dependency) (map fst (go_modules_by_name cm)) = None
        \<and> match_parent_module (name package) (map fst (go_modules_by_name cm)) = None"
  then show "fst (get_local_go_package_dep_purl env cm package dependency)
          = Inl (RuntimeError_no_parent_module (name package))"
    using get_local_no_package_module [of dependency cm package env] by blast
next
  assume "is_local (version dependency) \<and> version dependency = Some v
        \<and> match_parent_module (name dependency) (map fst (go_modules_by_name cm)) = None
        \<and> match_parent_module (name package) (map fst (go_modules_by_name cm)) = Some pm
        \<and> match_parent_module (normpath_join env pm v) (map fst (go_modules_by_name cm))
           = None"
  then show "fst (get_local_go_package_dep_purl env cm package dependency)
          = Inl (RuntimeError_no_parent_module (normpath_join env pm v))"
    using get_local_no_path_module [of dependency v cm package pm env] by blast
next
  assume "is_local (version dependency) \<and> version dependency = Some v
        \<and> match_parent_module (name dependency) (map fst (go_modules_by_name cm)) = None
        \<and> match_parent_module (name package) (map fst (go_modules_by_name cm)) = Some pm
        \<and> match_parent_module (normpath_join env pm v) (map fst (go_modules_by_name cm))
           = Some dm"
  then show "fst (get_local_go_package_dep_purl env cm package dependency)
          = (case relative_to env (normpath_join env pm v) dm of
               None \<Rightarrow> Inl (ValueError_not_relative (normpath_join env pm v) dm)
             | Some rel \<Rightarrow>
                 (case map_of (gomod_data cm) dm of
                    None \<Rightarrow> Inl (KeyError_module (Some dm))
                  | Some parent \<Rightarrow>
                      (case to_purl env (ident dependency) (Some rel) of
                         None \<Rightarrow> Inl ContentManifestError
                       | Some dep_purl \<Rightarrow>
                           Inr (replace_parent_purl_placeholder env dep_purl
                                  (m_purl parent)))))"
    using get_local_path_module [of dependency v cm package pm env dm] by blast
qed

theorem get_local_go_package_dep_purl_raises_witness:
  "is_local (version outside_go_dependency)
   \<and> match_parent_module (name outside_go_dependency)
        (map fst (go_modules_by_name local_go_manifest)) = None
   \<and> match_parent_module (name stray_go_package)
        (map fst (go_modules_by_name local_go_manifest)) = None
   \<and> fst (get_local_go_package_dep_purl spec_env local_go_manifest stray_go_package
            outside_go_dependency) = Inl (RuntimeError_no_parent_module ''x/p'')
   \<and> is_local (version escaping_go_dependency)
   \<and> version escaping_go_dependency = Some ''../z''
   \<and> match_parent_module (name escaping_go_dependency)
        (map fst (go_modules_by_name local_go_manifest)) = None
   \<and> match_parent_module (name (local_go_packages ! 1))
        (map fst (go_modules_by_name local_go_manifest)) = Some ''m''
   \<and> normpath_join spec_env ''m'' ''../z'' = ''z''
   \<and> match_parent_module ''z'' (map fst (go_modules_by_name local_go_manifest)) = None
   \<and> fst (get_local_go_package_dep_purl spec_env local_go_manifest (local_go_packages ! 1)
            escaping_go_dependency) = Inl (RuntimeError_no_parent_module ''z'')
   \<and> match_parent_module (name local_go_dependency)
        (map fst (go_modules_by_name local_go_manifest)) = Some ''m''
   \<and> fst (get_local_go_package_dep_purl spec_env local_go_manifest stray_go_package
            local_go_dependency) = Inr ''pkg:golang/m%2Fq@v1''
   \<and> \<not> is_local (version versioned_go_dependency)
   \<and> fst (get_local_go_package_dep_purl spec_env local_go_manifest stray_go_package
            versioned_go_dependency)
       = Inl (ValueError_invalid_local_version (''m/q'', ''go-package'', Some ''1.0.0'', False))"
proof -
  have a: "is_local (version outside_go_dependency)
   \<and> match_parent_module (name outside_go_dependency)
        (map fst (go_modules_by_name local_go_manifest)) = None
   \<and> match_parent_module (name stray_go_package)
        (map fst (go_modules_by_name local_go_manifest)) = None"
    by code_simp
  have b: "is_local (version escaping_go_dependency)
   \<and> version escaping_go_dependency = Some ''../z''
   \<and> match_parent_module (name escaping_go_dependency)
        (map fst (go_modules_by_name local_go_manifest)) = None
   \<and> match_parent_module (name (local_go_packages ! 1))
        (map fst (go_modules_by_name local_go_manifest)) = Some ''m''"
    by code_simp
  have b1: "normpath_join spec_env ''m'' ''../z'' = ''z''"
    by code_simp
  have b2: "match_parent_module ''z'' (map fst (go_modules_by_name local_go_manifest)) = None"
    by code_simp
  have c: "is_local (version local_go_dependency)
   \<and> match_parent_module (name local_go_dependency)
        (map fst (go_modules_by_name local_go_manifest)) = Some ''m''"
    by code_simp
  have c1: "to_purl spec_env
         (ident (relinked (packages local_go_manifest) local_go_dependency)) None
       = Some ''pkg:golang/m%2Fq@v1''"
    by code_simp
  have d: "\<not> is_local (version versioned_go_dependency)"
    by code_simp
  have d1: "ident versioned_go_dependency = (''m/q'', ''go-package'', Some ''1.0.0'', False)"
    by code_simp
  note t1 = get_local_go_package_dep_purl_raises
    [of spec_env local_go_manifest stray_go_package outside_go_dependency]
  note t2 = get_local_go_package_dep_purl_raises
    [of spec_env local_go_manifest "local_go_packages ! 1" escaping_go_dependency
        "''../z''" "''m''"]
  note t3 = get_local_go_package_dep_purl_raises
    [of spec_env local_go_manifest stray_go_package local_go_dependency]
  note t4 = get_local_go_package_dep_purl_raises
    [of spec_env local_go_manifest stray_go_package versioned_go_dependency]
  from t1 a have r1: "fst (get_local_go_package_dep_purl spec_env local_go_manifest
      stray_go_package outside_go_dependency) = Inl (RuntimeError_no_parent_module (name stray_go_package))"
    by blast
  have n1: "name stray_go_package = ''x/p''" by (simp add: stray_go_package_def)
  from t2 [unfolded b1] b b2 have r2: "fst (get_local_go_package_dep_purl spec_env local_go_manifest
      (local_go_packages ! 1) escaping_go_dependency) = Inl (RuntimeError_no_parent_module ''z'')"
    by blast
  from t3 [unfolded c1 option.case] c have r3: "fst (get_local_go_package_dep_purl spec_env local_go_manifest
      stray_go_package local_go_dependency) = Inr ''pkg:golang/m%2Fq@v1''"
    by blast
  from t4 [unfolded d1] d have r4: "fst (get_local_go_package_dep_purl spec_env local_go_manifest
      stray_go_package versioned_go_dependency)
       = Inl (ValueError_invalid_local_version (''m/q'', ''go-package'', Some ''1.0.0'', False))"
    by blast
  from a b b1 b2 c d r1 [unfolded n1] r2 r3 r4 show ?thesis by blast
qed

section \<open>The components of the dependencies\<close>

lemma get_local_dependency_left:
  assumes "is_local (version d)"
  shows "snd (get_local_go_package_dep_purl env cm p d) = relinked (packages cm) d"
proof (cases "match_parent_module (name d) (map fst (modules_by_name (packages cm)))")
  case None
  with assms have "snd (get_local_go_package_dep_purl env cm p d) = d"
    by (simp add: get_local_go_package_dep_purl_def go_modules_by_name_def Let_def
        split: option.split sum.split)
  with None show ?thesis by (simp add: relinked_def)
next
  case (Some m)
  with assms show ?thesis
    by (simp add: get_local_go_package_dep_purl_def go_modules_by_name_def Let_def
        relinked_def split: option.split)
qed

lemma process_dependency_left:
  "fst (snd (process_dependency env ty p d cm)) = dependency_left (packages cm) p d"
  by (simp add: process_dependency_dependency dependency_left_def get_local_dependency_left)

lemma dependency_left_type [simp]: "type (dependency_left pkgs p d) = type d"
  by (simp add: dependency_left_def relinked_fields)

lemma dependency_left_name [simp]: "name (dependency_left pkgs p d) = name d"
  by (simp add: dependency_left_def relinked_fields)

lemma process_dependencies_left:
  "process_dependencies env ty p ds cm = (None, ds', cm') \<Longrightarrow>
   ds' = map (dependency_left (packages cm) p) ds"
proof (induction ds arbitrary: cm ds' cm')
  case Nil
  then show ?case by simp
next
  case (Cons d ds)
  obtain r1 d1 cm1 where step: "process_dependency env ty p d cm = (r1, d1, cm1)"
    by (cases "process_dependency env ty p d cm") auto
  obtain r2 ds2 cm2 where rest: "process_dependencies env ty p ds cm1 = (r2, ds2, cm2)"
    by (cases "process_dependencies env ty p ds cm1") auto
  from Cons.prems step have r1: "r1 = None" by (cases r1) auto
  with Cons.prems step rest have r2: "r2 = None" and ds': "ds' = d1 # ds2" by simp_all
  from process_dependency_left [of env ty p d cm] step
  have d1: "d1 = dependency_left (packages cm) p d" by simp
  from process_dependency_frame [of env ty p d cm] step
  have f: "packages cm1 = packages cm" by simp
  from Cons.IH [of cm1 ds2 cm2] rest r2 f
  have "ds2 = map (dependency_left (packages cm) p) ds" by simp
  with ds' d1 show ?case by simp
qed

lemma processed_dependencies_left:
  "processed_dependencies
     (Package (name p) (type p) v dv pa (map (dependency_left pkgs p) (dependencies p)))
   = map (dependency_left pkgs p) (processed_dependencies p)"
  by (simp add: processed_dependencies_def filter_map comp_def)

lemma process_packages_left:
  "process_packages env ty ps cm = (None, ps', cm') \<Longrightarrow>
   map processed_dependencies ps'
   = map (\<lambda>p. map (dependency_left (packages cm) p) (processed_dependencies p)) ps"
proof (induction ps arbitrary: cm ps' cm')
  case Nil
  then show ?case by simp
next
  case (Cons p ps)
  obtain r1 ds1 cm1 where step:
    "process_dependencies env ty p (dependencies p) cm = (r1, ds1, cm1)"
    by (cases "process_dependencies env ty p (dependencies p) cm") auto
  obtain r2 ps2 cm2 where rest: "process_packages env ty ps cm1 = (r2, ps2, cm2)"
    by (cases "process_packages env ty ps cm1") auto
  from Cons.prems step have r1: "r1 = None" by (cases r1) auto
  with Cons.prems step rest have r2: "r2 = None"
    and ps': "ps' = Package (name p) (type p) (version p) (dev p) (path p) ds1 # ps2"
    by simp_all
  from process_dependencies_left [of env ty p "dependencies p" cm ds1 cm1] step r1
  have ds1: "ds1 = map (dependency_left (packages cm) p) (dependencies p)" by simp
  from process_dependencies_after [OF step] have f: "packages cm1 = packages cm" by simp
  from Cons.IH [of cm1 ps2 cm2] rest r2 f
  have "map processed_dependencies ps2
   = map (\<lambda>p. map (dependency_left (packages cm) p) (processed_dependencies p)) ps"
    by simp
  with ps' ds1 show ?case by (simp add: processed_dependencies_left)
qed

lemma sbom_components_list_left:
  assumes "fst (sbom_components_list env cm) = Inr comps"
  shows "map processed_dependencies (packages (snd (sbom_components_list env cm)))
   = map (\<lambda>p. map (dependency_left (packages cm) p) (processed_dependencies p)) (packages cm)"
proof -
  let ?cm0 = "cm\<lparr>sbom_components := [], gomod_data := []\<rparr>"
  obtain r1 cm1 where seed: "for_each (sbom_package env) (packages cm) ?cm0 = (r1, cm1)"
    by (cases "for_each (sbom_package env) (packages cm) ?cm0") auto
  with assms have r1: "r1 = None"
    by (cases r1) (simp_all add: sbom_components_list_def)
  from for_each_frame [of "sbom_package env" "packages cm" ?cm0, OF sbom_package_frame] seed
  have f1: "packages cm1 = packages cm" by simp
  obtain r2 ps cm2 where pass: "process_packages env Sbom (packages cm) cm1 = (r2, ps, cm2)"
    by (cases "process_packages env Sbom (packages cm) cm1") auto
  with assms seed r1 f1 have r2: "r2 = None"
    by (cases r2) (simp_all add: sbom_components_list_def)
  from assms seed r1 f1 pass r2
  have after: "packages (snd (sbom_components_list env cm)) = ps"
    by (simp_all add: sbom_components_list_def)
  from process_packages_left [of env Sbom "packages cm" cm1 ps cm2] pass r2 f1
  show ?thesis unfolding after by simp
qed

text \<open>
  C6, amended. When \<open>sbom_components_list\<close> returns, every component has the type
  \<open>"library"\<close> and a name. The list is: one component per package of a supported type,
  in the order of the packages, then one component per processed dependency (a
  dependency of the type of its owner, the owner being a go-package, gomod, npm, pip,
  yarn or rubygems package), in the order of the owners and of their dependencies. The
  component of a package has the version key if and only if the package has a non-empty
  version. The component of a dependency has the version key if and only if the
  dependency as the call leaves it has a non-empty version: that is the version it came
  with, except for a go-package dependency with a local version of a go-package whose
  name matches a module among the packages, where it is the version of that module.
\<close>

theorem sbom_components_type_name_version:
  assumes "fst (sbom_components_list env cm) = Inr comps"
  shows "map c_type comps = replicate (length comps) ''library''
   \<and> map c_name comps
     = map name
         (filter (\<lambda>p. type p \<in> set [''go-package'', ''gomod'', ''npm'', ''pip'', ''yarn'',
                                       ''rubygems'', ''git-submodule'']) (packages cm)
          @ concat (map processed_dependencies (packages cm)))
   \<and> map c_version comps
     = map (\<lambda>x. if truthy (version x) then version x else None)
         (filter (\<lambda>p. type p \<in> set [''go-package'', ''gomod'', ''npm'', ''pip'', ''yarn'',
                                       ''rubygems'', ''git-submodule'']) (packages cm)
          @ concat (map (\<lambda>p. map (dependency_left (packages cm) p) (processed_dependencies p))
                      (packages cm)))
   \<and> (\<forall>p d m module.
         type p = ''go-package'' \<and> type d = ''go-package'' \<and> is_local (version d)
         \<and> match_parent_module (name d) (map fst (modules_by_name (packages cm))) = Some m
         \<and> map_of (modules_by_name (packages cm)) m = Some module \<longrightarrow>
         version (dependency_left (packages cm) p d) = version module)
   \<and> (\<forall>p d. \<not> (type p = ''go-package'' \<and> type d = ''go-package'' \<and> is_local (version d)
                 \<and> match_parent_module (name d) (map fst (modules_by_name (packages cm)))
                    \<noteq> None) \<longrightarrow>
         version (dependency_left (packages cm) p d) = version d)"
proof -
  let ?tops = "filter (\<lambda>p. type p \<in> set [''go-package'', ''gomod'', ''npm'', ''pip'', ''yarn'',
                                       ''rubygems'', ''git-submodule'']) (packages cm)"
  let ?deps = "concat (map (\<lambda>p. map (dependency_left (packages cm) p) (processed_dependencies p))
                      (packages cm))"
  from sbom_components_list_fields [OF assms] sbom_components_list_left [OF assms]
  have eq: "map component_fields comps = map expected_fields (?tops @ ?deps)"
    by simp
  from arg_cong [OF eq, of length] have len: "length comps = length (?tops @ ?deps)"
    by simp
  from arg_cong [OF eq, of "map fst"]
  have "map c_type comps = map (\<lambda>x. ''library'') (?tops @ ?deps)"
    by (simp add: comp_def component_fields_def expected_fields_def)
  with len have t: "map c_type comps = replicate (length comps) ''library''"
    by (simp add: map_replicate_const)
  have names: "map name ?deps = map name (concat (map processed_dependencies (packages cm)))"
    by (simp add: map_concat comp_def)
  from arg_cong [OF eq, of "map (\<lambda>f. fst (snd f))"]
  have "map c_name comps = map name (?tops @ ?deps)"
    by (simp add: comp_def component_fields_def expected_fields_def)
  with names have n: "map c_name comps
     = map name (?tops @ concat (map processed_dependencies (packages cm)))"
    by simp
  from arg_cong [OF eq, of "map (\<lambda>f. snd (snd f))"]
  have v: "map c_version comps
      = map (\<lambda>x. if truthy (version x) then version x else None) (?tops @ ?deps)"
    by (simp add: comp_def component_fields_def expected_fields_def)
  have w: "\<forall>p d m module.
         type p = ''go-package'' \<and> type d = ''go-package'' \<and> is_local (version d)
         \<and> match_parent_module (name d) (map fst (modules_by_name (packages cm))) = Some m
         \<and> map_of (modules_by_name (packages cm)) m = Some module \<longrightarrow>
         version (dependency_left (packages cm) p d) = version module"
    by (simp add: dependency_left_def relinked_def)
  have u: "\<forall>p d. \<not> (type p = ''go-package'' \<and> type d = ''go-package'' \<and> is_local (version d)
                 \<and> match_parent_module (name d) (map fst (modules_by_name (packages cm)))
                    \<noteq> None) \<longrightarrow>
         version (dependency_left (packages cm) p d) = version d"
    by (auto simp: dependency_left_def relinked_def)
  from t n v w u show ?thesis by (intro conjI)
qed

theorem sbom_components_type_name_version_witness:
  "fst (sbom_components_list spec_env (ContentManifest example_request local_go_packages))
     = Inr [\<lparr>c_type = ''library'', c_name = ''m'', c_purl = ''pkg:golang/m@v1'',
               c_version = Some ''v1''\<rparr>,
            \<lparr>c_type = ''library'', c_name = ''m/p'', c_purl = ''pkg:golang/m%2Fp@v1'',
               c_version = Some ''v1''\<rparr>,
            \<lparr>c_type = ''library'', c_name = ''m/q'', c_purl = ''pkg:golang/m%2Fq@v1'',
               c_version = Some ''v1''\<rparr>]
   \<and> concat (map processed_dependencies
         (packages (ContentManifest example_request local_go_packages)))
     = [Package ''m/q'' ''go-package'' (Some ''./q'') False None []]
   \<and> map (\<lambda>x. if truthy (version x) then version x else None)
         (filter (\<lambda>p. type p \<in> set [''go-package'', ''gomod'', ''npm'', ''pip'', ''yarn'',
                                       ''rubygems'', ''git-submodule''])
            (packages (ContentManifest example_request local_go_packages))
          @ concat (map (\<lambda>p. map (dependency_left
                                     (packages (ContentManifest example_request local_go_packages)) p)
                               (processed_dependencies p))
                      (packages (ContentManifest example_request local_go_packages))))
     = [Some ''v1'', Some ''v1'', Some ''v1'']"
proof -
  let ?comps = "[\<lparr>c_type = ''library'', c_name = ''m'', c_purl = ''pkg:golang/m@v1'',
               c_version = Some ''v1''\<rparr>,
            \<lparr>c_type = ''library'', c_name = ''m/p'', c_purl = ''pkg:golang/m%2Fp@v1'',
               c_version = Some ''v1''\<rparr>,
            \<lparr>c_type = ''library'', c_name = ''m/q'', c_purl = ''pkg:golang/m%2Fq@v1'',
               c_version = Some ''v1''\<rparr>]"
  have h: "fst (sbom_components_list spec_env (ContentManifest example_request local_go_packages))
     = Inr ?comps"
    by code_simp
  have d: "concat (map processed_dependencies
         (packages (ContentManifest example_request local_go_packages)))
     = [Package ''m/q'' ''go-package'' (Some ''./q'') False None []]"
    by code_simp
  note t = sbom_components_type_name_version [OF h]
  from t have "map c_version ?comps
     = map (\<lambda>x. if truthy (version x) then version x else None)
         (filter (\<lambda>p. type p \<in> set [''go-package'', ''gomod'', ''npm'', ''pip'', ''yarn'',
                                       ''rubygems'', ''git-submodule''])
            (packages (ContentManifest example_request local_go_packages))
          @ concat (map (\<lambda>p. map (dependency_left
                                     (packages (ContentManifest example_request local_go_packages)) p)
                               (processed_dependencies p))
                      (packages (ContentManifest example_request local_go_packages))))"
    by (rule conjunct1 [OF conjunct2 [OF conjunct2]])
  from this [symmetric] have v: "map (\<lambda>x. if truthy (version x) then version x else None)
         (filter (\<lambda>p. type p \<in> set [''go-package'', ''gomod'', ''npm'', ''pip'', ''yarn'',
                                       ''rubygems'', ''git-submodule''])
            (packages (ContentManifest example_request local_go_packages))
          @ concat (map (\<lambda>p. map (dependency_left
                                     (packages (ContentManifest example_request local_go_packages)) p)
                               (processed_dependencies p))
                      (packages (ContentManifest example_request local_go_packages))))
     = [Some ''v1'', Some ''v1'', Some ''v1'']"
    by (simp only: list.map component.simps)
  from h d v show ?thesis by (intro conjI)
qed

end
